theory Spec2Isabelle
  imports Complex_Main "HOL-Library.AList"
begin

section \<open>Value types\<close>

text \<open>
  Identifiers are value-typed wrappers around a string and compare by content.
  A \<open>datetime\<close> is a count of microseconds since the Unix epoch and a \<open>timedelta\<close> a
  count of microseconds; a \<open>Quantity\<close> wraps a Python integer.
\<close>

type_synonym OrderId = string
type_synonym OrderIdBroker = string
type_synonym AccountId = string
type_synonym PositionId = string
type_synonym PositionIdBroker = string
type_synonym ExecutionId = string
type_synonym StrategyId = string
type_synonym Symbol = string
type_synonym Label = string
type_synonym GUID = nat
type_synonym datetime = int
type_synonym timedelta = int
type_synonym Quantity = int

text \<open>
  Modelled from the spec: the classes \<open>Decimal\<close> and \<open>Price\<close> (nautilus_trader.core.decimal,
  nautilus_trader.model.objects) are not part of the sources. A decimal is a value held at a
  precision; the binary floating point of \<open>as_double\<close> is replaced by exact rationals, and
  \<open>Decimal(v, p)\<close> rounds \<open>v\<close> to \<open>p\<close> decimal places. A difference of two doubles can
  round differently from the exact difference, so the \<open>slippage\<close> stored by the model can
  differ from the program's in the last place; no statement below reads \<open>slippage\<close>.
\<close>

record Decimal =
  dec_value :: rat
  precision :: nat

type_synonym Price = Decimal

definition Decimal_new :: "rat \<Rightarrow> nat \<Rightarrow> Decimal" where
  "Decimal_new v p = \<lparr>dec_value = of_int (round (v * 10 ^ p)) / 10 ^ p, precision = p\<rparr>"

definition Decimal_zero :: Decimal where
  "Decimal_zero = \<lparr>dec_value = 0, precision = 0\<rparr>"

definition as_double :: "Decimal \<Rightarrow> rat" where
  "as_double d = dec_value d"

datatype OrderSide = OrderSide_UNDEFINED | BUY | SELL

datatype OrderType = OrderType_UNDEFINED | MARKET | LIMIT | STOP_MARKET | STOP_LIMIT | MIT

datatype OrderPurpose = OrderPurpose_UNDEFINED | OrderPurpose_NONE | ENTRY | STOP_LOSS | TAKE_PROFIT

datatype TimeInForce = TimeInForce_UNDEFINED | DAY | GTC | GTD | FOC | IOC

datatype OrderState =
    INITIALIZED | INVALID | DENIED | SUBMITTED | ACCEPTED | REJECTED | WORKING
  | CANCELLED | EXPIRED | OVER_FILLED | PARTIALLY_FILLED | FILLED

text \<open>Exceptions are values; a constructor that can raise returns \<open>error + result\<close>.\<close>

datatype error = ConditionFailed string | AttributeError string | AssertionError | TypeError

section \<open>Order events\<close>

text \<open>
  The event classes (nautilus_trader.model.events) are type declarations outside the sources.
  Every order event carries the order identifier, an account identifier (possibly \<open>None\<close>), its
  own identifier and a timestamp; the class of the event and the payload the order reads from
  it are the \<open>OrderEventKind\<close>. The payload of a fill is the record \<open>Fill\<close>.
\<close>

record Fill =
  fill_execution_id :: ExecutionId
  fill_position_id_broker :: PositionIdBroker
  fill_order_side :: OrderSide
  fill_filled_quantity :: Quantity
  fill_average_price :: Price

datatype OrderEventKind =
    OrderInitialized
  | OrderInvalid
  | OrderDenied
  | OrderSubmitted
  | OrderRejected
  | OrderAccepted
  | OrderWorking OrderIdBroker
  | OrderCancelled
  | OrderExpired
  | OrderModified OrderIdBroker Quantity Price
  | OrderFillEvent Fill
  | OrderCancelReject

record OrderEvent =
  ev_order_id :: OrderId
  ev_account_id :: "AccountId option"
  ev_id :: GUID
  ev_timestamp :: datetime
  ev_kind :: OrderEventKind

section \<open>Order\<close>

record Order =
  order_id :: OrderId
  id_broker :: "OrderIdBroker option"
  account_id :: "AccountId option"
  position_id_broker :: "PositionIdBroker option"
  execution_id :: "ExecutionId option"
  symbol :: Symbol
  side :: OrderSide
  order_type :: OrderType
  quantity :: Quantity
  timestamp :: datetime
  price :: "Price option"
  label :: "Label option"
  purpose :: OrderPurpose
  time_in_force :: TimeInForce
  expire_time :: "datetime option"
  filled_quantity :: Quantity
  filled_timestamp :: "datetime option"
  average_price :: "Price option"
  slippage :: Decimal
  state :: OrderState
  init_id :: GUID
  is_buy :: bool
  is_sell :: bool
  is_working :: bool
  is_completed :: bool
  execution_ids :: "ExecutionId set"
  events :: "OrderEvent list"
  last_event :: OrderEvent
  order_event_count :: nat

text \<open>Order types which require a price to be valid.\<close>

definition PRICED_ORDER_TYPES :: "OrderType set" where
  "PRICED_ORDER_TYPES = {LIMIT, STOP_MARKET, STOP_LIMIT, MIT}"

text \<open>
  \<open>Order.__init__\<close>: the checks run in the order of the source and the first that fails
  raises; otherwise the order starts in state \<open>INITIALIZED\<close> with its initialization event
  as the only entry of the event log.
\<close>

definition Order_init ::
  "OrderId \<Rightarrow> Symbol \<Rightarrow> OrderSide \<Rightarrow> OrderType \<Rightarrow> Quantity \<Rightarrow> GUID \<Rightarrow> datetime \<Rightarrow>
   Price option \<Rightarrow> Label option \<Rightarrow> OrderPurpose \<Rightarrow> TimeInForce \<Rightarrow> datetime option \<Rightarrow>
   error + Order" where
  "Order_init oid smb oside otype qty iid ts pr lbl purp tif expire =
    (if oside = OrderSide_UNDEFINED then Inl (ConditionFailed ''order_side'')
     else if otype = OrderType_UNDEFINED then Inl (ConditionFailed ''order_type'')
     else if purp = OrderPurpose_UNDEFINED then Inl (ConditionFailed ''order_purpose'')
     else if tif = TimeInForce_UNDEFINED then Inl (ConditionFailed ''time_in_force'')
     else if \<not> 0 < qty then Inl (ConditionFailed ''quantity'')
     else if otype \<in> PRICED_ORDER_TYPES \<and> pr = None then Inl (ConditionFailed ''price'')
     else if otype \<notin> PRICED_ORDER_TYPES \<and> pr \<noteq> None then Inl (ConditionFailed ''price'')
     else if tif = GTD \<and> expire = None then Inl (ConditionFailed ''expire_time'')
     else
       let initialized = \<lparr>ev_order_id = oid, ev_account_id = None, ev_id = iid,
                           ev_timestamp = ts, ev_kind = OrderInitialized\<rparr>
       in Inr \<lparr>order_id = oid, id_broker = None, account_id = None,
                position_id_broker = None, execution_id = None, symbol = smb, side = oside,
                order_type = otype, quantity = qty, timestamp = ts, price = pr, label = lbl,
                purpose = purp, time_in_force = tif, expire_time = expire,
                filled_quantity = 0, filled_timestamp = None, average_price = None,
                slippage = Decimal_zero, state = INITIALIZED, init_id = iid,
                is_buy = (oside = BUY), is_sell = (oside = SELL),
                is_working = False, is_completed = False, execution_ids = {},
                events = [initialized], last_event = initialized, order_event_count = 1\<rparr>)"

definition set_is_working_true :: "Order \<Rightarrow> Order" where
  "set_is_working_true ord = ord\<lparr>is_working := True, is_completed := False\<rparr>"

definition set_is_completed_true :: "Order \<Rightarrow> Order" where
  "set_is_completed_true ord = ord\<lparr>is_working := False, is_completed := True\<rparr>"

definition set_filled_state :: "Order \<Rightarrow> Order" where
  "set_filled_state ord =
    (if filled_quantity ord < quantity ord then ord\<lparr>state := PARTIALLY_FILLED\<rparr>
     else if filled_quantity ord = quantity ord then ord\<lparr>state := FILLED\<rparr>
     else if filled_quantity ord > quantity ord then ord\<lparr>state := OVER_FILLED\<rparr>
     else ord)"

text \<open>
  A method that can raise after it has begun to mutate its object returns the exception, if
  any, together with the object as the raise leaves it: \<open>(None, obj)\<close> is a normal return.

  \<open>_set_slippage\<close> reads \<open>self.average_price\<close> and \<open>self.price\<close>; on \<open>None\<close> the attribute
  access raises.
\<close>

definition set_slippage :: "Order \<Rightarrow> error option \<times> Order" where
  "set_slippage ord =
    (if order_type ord \<notin> PRICED_ORDER_TYPES then (None, ord)
     else case (average_price ord, price ord) of
         (Some avg, Some p) \<Rightarrow>
           if side ord = BUY
           then (None, ord\<lparr>slippage := Decimal_new (as_double avg - as_double p) (precision avg)\<rparr>)
           else (None, ord\<lparr>slippage := Decimal_new (as_double p - as_double avg) (precision avg)\<rparr>)
       | _ \<Rightarrow> (Some (AttributeError ''as_double''), ord))"

text \<open>
  \<open>Order.apply\<close>: the two precondition checks come before any mutation; then the event is
  logged and the branch of the first matching event class runs. Events of any other class
  (\<open>OrderInitialized\<close>, \<open>OrderCancelReject\<close>) are logged only.
\<close>

definition Order_apply :: "OrderEvent \<Rightarrow> Order \<Rightarrow> error option \<times> Order" where
  "Order_apply event ord =
    (if order_id ord \<noteq> ev_order_id event then (Some (ConditionFailed ''id''), ord)
     else if account_id ord \<noteq> None \<and> account_id ord \<noteq> ev_account_id event
       then (Some (ConditionFailed ''account_id''), ord)
     else
       let ord = ord\<lparr>events := events ord @ [event], last_event := event,
                      order_event_count := order_event_count ord + 1\<rparr>
       in case ev_kind event of
            OrderInvalid \<Rightarrow> (None, set_is_completed_true (ord\<lparr>state := INVALID\<rparr>))
          | OrderDenied \<Rightarrow> (None, set_is_completed_true (ord\<lparr>state := DENIED\<rparr>))
          | OrderSubmitted \<Rightarrow>
              (None, ord\<lparr>state := SUBMITTED, account_id := ev_account_id event\<rparr>)
          | OrderRejected \<Rightarrow> (None, set_is_completed_true (ord\<lparr>state := REJECTED\<rparr>))
          | OrderAccepted \<Rightarrow> (None, ord\<lparr>state := ACCEPTED\<rparr>)
          | OrderWorking bid \<Rightarrow>
              (None, set_is_working_true (ord\<lparr>state := WORKING, id_broker := Some bid\<rparr>))
          | OrderCancelled \<Rightarrow> (None, set_is_completed_true (ord\<lparr>state := CANCELLED\<rparr>))
          | OrderExpired \<Rightarrow> (None, set_is_completed_true (ord\<lparr>state := EXPIRED\<rparr>))
          | OrderModified bid qty pr \<Rightarrow>
              (None, ord\<lparr>id_broker := Some bid, quantity := qty, price := Some pr\<rparr>)
          | OrderFillEvent fill \<Rightarrow>
              (case set_slippage
                      (ord\<lparr>position_id_broker := Some (fill_position_id_broker fill),
                           execution_ids := insert (fill_execution_id fill) (execution_ids ord),
                           execution_id := Some (fill_execution_id fill),
                           filled_quantity := fill_filled_quantity fill,
                           filled_timestamp := Some (ev_timestamp event),
                           average_price := Some (fill_average_price fill)\<rparr>) of
                 (Some err, ord) \<Rightarrow> (Some err, ord)
               | (None, ord) \<Rightarrow>
                   let ord = set_filled_state ord
                   in if state ord = FILLED then (None, set_is_completed_true ord)
                      else (None, ord))
          | _ \<Rightarrow> (None, ord))"

text \<open>Applying a sequence of events in order; the first \<open>apply\<close> that raises ends it.\<close>

fun apply_all :: "OrderEvent list \<Rightarrow> Order \<Rightarrow> error option \<times> Order" where
  "apply_all [] ord = (None, ord)"
| "apply_all (e # es) ord =
     (case Order_apply e ord of
        (Some err, ord') \<Rightarrow> (Some err, ord')
      | (None, ord') \<Rightarrow> apply_all es ord')"

definition is_fill :: "OrderEvent \<Rightarrow> bool" where
  "is_fill e = (case ev_kind e of OrderFillEvent _ \<Rightarrow> True | _ \<Rightarrow> False)"

text \<open>Constructing an order and then applying events to it, when the construction succeeds.\<close>

definition then_apply :: "error + Order \<Rightarrow> OrderEvent list \<Rightarrow> error + Order" where
  "then_apply r es =
     (case r of
        Inl err \<Rightarrow> Inl err
      | Inr ord \<Rightarrow> (case apply_all es ord of (Some err, _) \<Rightarrow> Inl err | (None, ord') \<Rightarrow> Inr ord'))"

section \<open>AtomicOrder and OrderFactory\<close>

record AtomicOrder =
  atomic_id :: string
  entry :: Order
  stop_loss :: Order
  take_profit :: "Order option"
  has_take_profit :: bool
  atomic_timestamp :: datetime

definition AtomicOrder_init :: "Order \<Rightarrow> Order \<Rightarrow> Order option \<Rightarrow> AtomicOrder" where
  "AtomicOrder_init e sl tp =
     \<lparr>atomic_id = ''A'' @ order_id e, entry = e, stop_loss = sl, take_profit = tp,
      has_take_profit = (tp \<noteq> None), atomic_timestamp = timestamp e\<rparr>"

text \<open>
  The factory holds a clock, a GUID factory and an order identifier generator, none of which
  is part of the sources. The clock is the time it currently reads (\<open>factory_now\<close>) and the
  GUID factory a counter of the identifiers handed out.
\<close>

record OrderFactory =
  id_tag_trader :: string
  id_tag_strategy :: string
  factory_count :: nat
  factory_now :: datetime
  guid_count :: nat

fun string_of_nat :: "nat \<Rightarrow> string" where
  "string_of_nat n =
     (if n < 10 then [char_of (48 + n)]
      else string_of_nat (n div 10) @ [char_of (48 + n mod 10)])"

declare string_of_nat.simps [simp del]

text \<open>
  Modelled from the spec: \<open>OrderIdGenerator.generate\<close> is not part of the sources. ``An
  internal counter supplies monotonic order identifiers scoped by (trader_tag,
  strategy_tag)'': the counter is incremented and the identifier is built from the two tags
  and the new count.
\<close>

definition id_generate :: "OrderFactory \<Rightarrow> OrderId \<times> OrderFactory" where
  "id_generate f =
     (let c = factory_count f + 1
      in (''O-'' @ id_tag_trader f @ ''-'' @ id_tag_strategy f @ ''-'' @ string_of_nat c,
          f\<lparr>factory_count := c\<rparr>))"

definition guid_generate :: "OrderFactory \<Rightarrow> GUID \<times> OrderFactory" where
  "guid_generate f = (guid_count f, f\<lparr>guid_count := guid_count f + 1\<rparr>)"

text \<open>
  Every factory method evaluates the arguments of the \<open>Order\<close> constructor first, so both
  generators have advanced when the constructor raises. \<open>create_order\<close> is that common
  body: the order type, time in force and expire time are what the method passes.
\<close>

definition create_order ::
  "OrderFactory \<Rightarrow> Symbol \<Rightarrow> OrderSide \<Rightarrow> OrderType \<Rightarrow> Quantity \<Rightarrow> Price option \<Rightarrow>
   Label option \<Rightarrow> OrderPurpose \<Rightarrow> TimeInForce \<Rightarrow> datetime option \<Rightarrow>
   (error + Order) \<times> OrderFactory" where
  "create_order f smb oside otype qty pr lbl purp tif expire =
     (let (oid, f1) = id_generate f;
          (gid, f2) = guid_generate f1
      in (Order_init oid smb oside otype qty gid (factory_now f2) pr lbl purp tif expire, f2))"

definition market ::
  "OrderFactory \<Rightarrow> Symbol \<Rightarrow> OrderSide \<Rightarrow> Quantity \<Rightarrow> Label option \<Rightarrow> OrderPurpose \<Rightarrow>
   (error + Order) \<times> OrderFactory" where
  "market f smb oside qty lbl purp = create_order f smb oside MARKET qty None lbl purp DAY None"

definition limit ::
  "OrderFactory \<Rightarrow> Symbol \<Rightarrow> OrderSide \<Rightarrow> Quantity \<Rightarrow> Price option \<Rightarrow> Label option \<Rightarrow>
   OrderPurpose \<Rightarrow> TimeInForce \<Rightarrow> datetime option \<Rightarrow> (error + Order) \<times> OrderFactory" where
  "limit f smb oside qty pr lbl purp tif expire =
     create_order f smb oside LIMIT qty pr lbl purp tif expire"

definition stop_market ::
  "OrderFactory \<Rightarrow> Symbol \<Rightarrow> OrderSide \<Rightarrow> Quantity \<Rightarrow> Price option \<Rightarrow> Label option \<Rightarrow>
   OrderPurpose \<Rightarrow> TimeInForce \<Rightarrow> datetime option \<Rightarrow> (error + Order) \<times> OrderFactory" where
  "stop_market f smb oside qty pr lbl purp tif expire =
     create_order f smb oside STOP_MARKET qty pr lbl purp tif expire"

definition stop_limit ::
  "OrderFactory \<Rightarrow> Symbol \<Rightarrow> OrderSide \<Rightarrow> Quantity \<Rightarrow> Price option \<Rightarrow> Label option \<Rightarrow>
   OrderPurpose \<Rightarrow> TimeInForce \<Rightarrow> datetime option \<Rightarrow> (error + Order) \<times> OrderFactory" where
  "stop_limit f smb oside qty pr lbl purp tif expire =
     create_order f smb oside STOP_LIMIT qty pr lbl purp tif expire"

definition market_if_touched ::
  "OrderFactory \<Rightarrow> Symbol \<Rightarrow> OrderSide \<Rightarrow> Quantity \<Rightarrow> Price option \<Rightarrow> Label option \<Rightarrow>
   OrderPurpose \<Rightarrow> TimeInForce \<Rightarrow> datetime option \<Rightarrow> (error + Order) \<times> OrderFactory" where
  "market_if_touched f smb oside qty pr lbl purp tif expire =
     create_order f smb oside MIT qty pr lbl purp tif expire"

definition fill_or_kill ::
  "OrderFactory \<Rightarrow> Symbol \<Rightarrow> OrderSide \<Rightarrow> Quantity \<Rightarrow> Label option \<Rightarrow> OrderPurpose \<Rightarrow>
   (error + Order) \<times> OrderFactory" where
  "fill_or_kill f smb oside qty lbl purp =
     create_order f smb oside MARKET qty None lbl purp FOC None"

definition immediate_or_cancel ::
  "OrderFactory \<Rightarrow> Symbol \<Rightarrow> OrderSide \<Rightarrow> Quantity \<Rightarrow> Label option \<Rightarrow> OrderPurpose \<Rightarrow>
   (error + Order) \<times> OrderFactory" where
  "immediate_or_cancel f smb oside qty lbl purp =
     create_order f smb oside MARKET qty None lbl purp IOC None"

text \<open>
  \<open>_create_atomic_order\<close>: the children take the side opposite to the entry; the
  take-profit is built only when a take-profit price is given.
\<close>

definition create_atomic_order ::
  "OrderFactory \<Rightarrow> Order \<Rightarrow> Price option \<Rightarrow> Price option \<Rightarrow> Label option \<Rightarrow>
   (error + AtomicOrder) \<times> OrderFactory" where
  "create_atomic_order f e price_stop_loss price_take_profit original_label =
     (let child_order_side = (if side e = SELL then BUY else SELL);
          label_stop_loss = (case original_label of None \<Rightarrow> None | Some l \<Rightarrow> Some (l @ ''_SL''));
          label_take_profit = (case original_label of None \<Rightarrow> None | Some l \<Rightarrow> Some (l @ ''_TP''))
      in case stop_market f (symbol e) child_order_side (quantity e) price_stop_loss
                label_stop_loss STOP_LOSS GTC None of
           (Inl err, f1) \<Rightarrow> (Inl err, f1)
         | (Inr sl, f1) \<Rightarrow>
             (if price_take_profit \<noteq> None
              then case limit f1 (symbol e) child_order_side (quantity e) price_take_profit
                          label_take_profit TAKE_PROFIT GTC None of
                     (Inl err, f2) \<Rightarrow> (Inl err, f2)
                   | (Inr tp, f2) \<Rightarrow> (Inr (AtomicOrder_init e sl (Some tp)), f2)
              else (Inr (AtomicOrder_init e sl None), f1)))"

text \<open>
  The three atomic methods compute \<open>entry_label\<close> alike; \<open>atomic_market\<close> passes it to the
  entry order, \<open>atomic_limit\<close> and \<open>atomic_stop_market\<close> pass \<open>label\<close>.
\<close>

definition atomic_market ::
  "OrderFactory \<Rightarrow> Symbol \<Rightarrow> OrderSide \<Rightarrow> Quantity \<Rightarrow> Price option \<Rightarrow> Price option \<Rightarrow>
   Label option \<Rightarrow> (error + AtomicOrder) \<times> OrderFactory" where
  "atomic_market f smb oside qty price_stop_loss price_take_profit lbl =
     (let entry_label = (case lbl of None \<Rightarrow> None | Some l \<Rightarrow> Some (l @ ''_E''))
      in case market f smb oside qty entry_label ENTRY of
           (Inl err, f1) \<Rightarrow> (Inl err, f1)
         | (Inr entry_order, f1) \<Rightarrow>
             create_atomic_order f1 entry_order price_stop_loss price_take_profit lbl)"

definition atomic_limit ::
  "OrderFactory \<Rightarrow> Symbol \<Rightarrow> OrderSide \<Rightarrow> Quantity \<Rightarrow> Price option \<Rightarrow> Price option \<Rightarrow>
   Price option \<Rightarrow> Label option \<Rightarrow> TimeInForce \<Rightarrow> datetime option \<Rightarrow>
   (error + AtomicOrder) \<times> OrderFactory" where
  "atomic_limit f smb oside qty price_entry price_stop_loss price_take_profit lbl tif expire =
     (let entry_label = (case lbl of None \<Rightarrow> None | Some l \<Rightarrow> Some (l @ ''_E''))
      in case limit f smb oside qty price_entry lbl ENTRY tif expire of
           (Inl err, f1) \<Rightarrow> (Inl err, f1)
         | (Inr entry_order, f1) \<Rightarrow>
             create_atomic_order f1 entry_order price_stop_loss price_take_profit lbl)"

definition atomic_stop_market ::
  "OrderFactory \<Rightarrow> Symbol \<Rightarrow> OrderSide \<Rightarrow> Quantity \<Rightarrow> Price option \<Rightarrow> Price option \<Rightarrow>
   Price option \<Rightarrow> Label option \<Rightarrow> TimeInForce \<Rightarrow> datetime option \<Rightarrow>
   (error + AtomicOrder) \<times> OrderFactory" where
  "atomic_stop_market f smb oside qty price_entry price_stop_loss price_take_profit lbl tif expire =
     (let entry_label = (case lbl of None \<Rightarrow> None | Some l \<Rightarrow> Some (l @ ''_E''))
      in case stop_market f smb oside qty price_entry lbl ENTRY tif expire of
           (Inl err, f1) \<Rightarrow> (Inl err, f1)
         | (Inr entry_order, f1) \<Rightarrow>
             create_atomic_order f1 entry_order price_stop_loss price_take_profit lbl)"

section \<open>Positions, accounts and the remaining events\<close>

text \<open>
  Modelled from the spec: the class \<open>Position\<close> (nautilus_trader.model.position) is not part
  of the sources. ``Created by the first fill on an OrderId; subsequent fills on orders mapped
  to the same PositionId modify it; it closes when net quantity returns to zero.'' A buy fill
  adds its filled quantity to the net quantity and a sell fill subtracts it.
\<close>

record Position =
  position_id :: PositionId
  relative_quantity :: int
  is_closed :: bool
  position_events :: "OrderEvent list"

definition signed_quantity :: "OrderEvent \<Rightarrow> int" where
  "signed_quantity event =
     (case ev_kind event of
        OrderFillEvent fill \<Rightarrow>
          (if fill_order_side fill = BUY then fill_filled_quantity fill
           else if fill_order_side fill = SELL then - fill_filled_quantity fill
           else 0)
      | _ \<Rightarrow> 0)"

definition Position_init :: "PositionId \<Rightarrow> OrderEvent \<Rightarrow> Position" where
  "Position_init pid event =
     \<lparr>position_id = pid, relative_quantity = signed_quantity event,
      is_closed = (signed_quantity event = 0), position_events = [event]\<rparr>"

definition Position_apply :: "OrderEvent \<Rightarrow> Position \<Rightarrow> Position" where
  "Position_apply event pos =
     pos\<lparr>relative_quantity := relative_quantity pos + signed_quantity event,
         is_closed := (relative_quantity pos + signed_quantity event = 0),
         position_events := position_events pos @ [event]\<rparr>"

datatype PositionEventKind = PositionOpened | PositionModified | PositionClosed

record PositionEvent =
  pe_position :: Position
  pe_strategy_id :: StrategyId
  pe_order_fill :: OrderEvent
  pe_id :: GUID
  pe_timestamp :: datetime
  pe_kind :: PositionEventKind

record AccountStateEvent =
  ase_account_id :: AccountId
  ase_cash_balance :: rat
  ase_id :: GUID
  ase_timestamp :: datetime

text \<open>
  Modelled from the spec: \<open>Account.apply\<close> is only declared (account.pxd). The account
  ``holds last-known state from AccountStateEvent'' with an append-only event log, and
  ``initialized becomes true after the first applied event''.
\<close>

record Account =
  initialized :: bool
  acc_id :: "AccountId option"
  cash_balance :: rat
  last_updated :: "datetime option"
  acc_events :: "AccountStateEvent list"
  acc_event_count :: nat

definition Account_apply :: "AccountStateEvent \<Rightarrow> Account \<Rightarrow> Account" where
  "Account_apply event acc =
     acc\<lparr>initialized := True, acc_id := Some (ase_account_id event),
         cash_balance := ase_cash_balance event, last_updated := Some (ase_timestamp event),
         acc_events := acc_events acc @ [event], acc_event_count := acc_event_count acc + 1\<rparr>"

datatype Event =
    OrderE OrderEvent
  | PositionE PositionEvent
  | AccountE AccountStateEvent
  | OtherEvent

text \<open>
  The portfolio is an external collaborator: it is what it has been handed, the account
  transactions and, through its analyzer, the closed positions whose realized return is added.
\<close>

record Portfolio =
  transactions :: "AccountStateEvent list"
  analyzer_returns :: "(datetime \<times> PositionId) list"

section \<open>Execution database\<close>

text \<open>
  The logger is shared by the engine and its database. Only the lines at warning and error
  level are modelled; a query that logs returns its lines beside its result.
\<close>

datatype LogLevel = WARNING | ERROR

type_synonym LogLine = "LogLevel \<times> string"

record InMemoryExecutionDatabase =
  cached_orders :: "OrderId \<rightharpoonup> Order"
  cached_positions :: "PositionId \<rightharpoonup> Position"
  strategies :: "StrategyId set"
  index_order_position :: "OrderId \<rightharpoonup> PositionId"
  index_order_strategy :: "OrderId \<rightharpoonup> StrategyId"
  index_position_strategy :: "PositionId \<rightharpoonup> StrategyId"
  index_position_orders :: "PositionId \<rightharpoonup> OrderId set"
  index_strategy_orders :: "StrategyId \<rightharpoonup> OrderId set"
  index_strategy_positions :: "StrategyId \<rightharpoonup> PositionId set"
  index_orders :: "OrderId set"
  index_orders_working :: "OrderId set"
  index_orders_completed :: "OrderId set"
  index_positions :: "PositionId set"
  index_positions_open :: "PositionId set"
  index_positions_closed :: "PositionId set"

definition InMemoryExecutionDatabase_init :: InMemoryExecutionDatabase where
  "InMemoryExecutionDatabase_init =
     \<lparr>cached_orders = Map.empty, cached_positions = Map.empty, strategies = {},
      index_order_position = Map.empty, index_order_strategy = Map.empty,
      index_position_strategy = Map.empty, index_position_orders = Map.empty,
      index_strategy_orders = Map.empty, index_strategy_positions = Map.empty,
      index_orders = {}, index_orders_working = {}, index_orders_completed = {},
      index_positions = {}, index_positions_open = {}, index_positions_closed = {}\<rparr>"

definition add_strategy ::
  "StrategyId \<Rightarrow> InMemoryExecutionDatabase \<Rightarrow> error option \<times> InMemoryExecutionDatabase" where
  "add_strategy sid db =
     (if sid \<in> strategies db then (Some (ConditionFailed ''strategy.id''), db)
      else (None, db\<lparr>strategies := insert sid (strategies db)\<rparr>))"

text \<open>
  \<open>add_order\<close>: four membership checks, then the insertions. The assertion on the
  position's strategy comes after the order has been stored and indexed, so a failing
  assertion leaves those insertions behind.
\<close>

definition add_order ::
  "Order \<Rightarrow> StrategyId \<Rightarrow> PositionId \<Rightarrow> InMemoryExecutionDatabase \<Rightarrow>
   error option \<times> InMemoryExecutionDatabase" where
  "add_order ord sid pid db =
     (if order_id ord \<in> dom (cached_orders db) then (Some (ConditionFailed ''order.id''), db)
      else if order_id ord \<in> index_orders db then (Some (ConditionFailed ''order.id''), db)
      else if order_id ord \<in> dom (index_order_strategy db)
        then (Some (ConditionFailed ''order.id''), db)
      else if order_id ord \<in> dom (index_order_position db)
        then (Some (ConditionFailed ''order.id''), db)
      else
        let db1 = db\<lparr>cached_orders := (cached_orders db)(order_id ord \<mapsto> ord),
                     index_orders := insert (order_id ord) (index_orders db),
                     index_order_strategy := (index_order_strategy db)(order_id ord \<mapsto> sid),
                     index_order_position := (index_order_position db)(order_id ord \<mapsto> pid)\<rparr>
        in if (case index_position_strategy db1 pid of None \<Rightarrow> False | Some sid' \<Rightarrow> sid \<noteq> sid')
           then (Some AssertionError, db1)
           else
             let db2 = (if pid \<notin> dom (index_position_strategy db1)
                        then db1\<lparr>index_position_strategy :=
                                   (index_position_strategy db1)(pid \<mapsto> sid)\<rparr>
                        else db1);
                 db3 = db2\<lparr>index_position_orders := (index_position_orders db2)(pid \<mapsto>
                          (case index_position_orders db2 pid of
                             None \<Rightarrow> {order_id ord}
                           | Some ids \<Rightarrow> insert (order_id ord) ids))\<rparr>;
                 db4 = db3\<lparr>index_strategy_orders := (index_strategy_orders db3)(sid \<mapsto>
                          (case index_strategy_orders db3 sid of
                             None \<Rightarrow> {order_id ord}
                           | Some ids \<Rightarrow> insert (order_id ord) ids))\<rparr>;
                 db5 = db4\<lparr>index_strategy_positions := (index_strategy_positions db4)(sid \<mapsto>
                          (case index_strategy_positions db4 sid of
                             None \<Rightarrow> {pid}
                           | Some ids \<Rightarrow> insert pid ids))\<rparr>
             in (None, db5))"

definition add_position ::
  "Position \<Rightarrow> StrategyId \<Rightarrow> InMemoryExecutionDatabase \<Rightarrow>
   error option \<times> InMemoryExecutionDatabase" where
  "add_position pos sid db =
     (if position_id pos \<in> dom (cached_positions db)
        then (Some (ConditionFailed ''position.id''), db)
      else if position_id pos \<in> index_positions db
        then (Some (ConditionFailed ''position.id''), db)
      else if position_id pos \<in> index_positions_open db
        then (Some (ConditionFailed ''position.id''), db)
      else (None, db\<lparr>cached_positions := (cached_positions db)(position_id pos \<mapsto> pos),
                      index_positions := insert (position_id pos) (index_positions db),
                      index_positions_open := insert (position_id pos) (index_positions_open db)\<rparr>))"

definition update_order :: "Order \<Rightarrow> InMemoryExecutionDatabase \<Rightarrow> InMemoryExecutionDatabase" where
  "update_order ord db =
     (if is_working ord
      then db\<lparr>index_orders_working := insert (order_id ord) (index_orders_working db),
              index_orders_completed := index_orders_completed db - {order_id ord}\<rparr>
      else if is_completed ord
      then db\<lparr>index_orders_completed := insert (order_id ord) (index_orders_completed db),
              index_orders_working := index_orders_working db - {order_id ord}\<rparr>
      else db)"

definition update_position ::
  "Position \<Rightarrow> InMemoryExecutionDatabase \<Rightarrow> InMemoryExecutionDatabase" where
  "update_position pos db =
     (if is_closed pos
      then db\<lparr>index_positions_closed := insert (position_id pos) (index_positions_closed db),
              index_positions_open := index_positions_open db - {position_id pos}\<rparr>
      else db)"

definition update_account :: "Account \<Rightarrow> InMemoryExecutionDatabase \<Rightarrow> InMemoryExecutionDatabase" where
  "update_account acc db = db"

definition delete_strategy ::
  "StrategyId \<Rightarrow> InMemoryExecutionDatabase \<Rightarrow> error option \<times> InMemoryExecutionDatabase" where
  "delete_strategy sid db =
     (if sid \<notin> strategies db then (Some (ConditionFailed ''strategy.id''), db)
      else (None, db\<lparr>strategies := strategies db - {sid},
                      index_strategy_orders := (index_strategy_orders db)(sid := None),
                      index_strategy_positions := (index_strategy_positions db)(sid := None)\<rparr>))"

text \<open>\<open>ExecutionDatabase._reset\<close> clears the two owning stores.\<close>

definition ExecutionDatabase_reset :: "InMemoryExecutionDatabase \<Rightarrow> InMemoryExecutionDatabase" where
  "ExecutionDatabase_reset db = db\<lparr>cached_orders := Map.empty, cached_positions := Map.empty\<rparr>"

text \<open>\<open>InMemoryExecutionDatabase.reset\<close> clears every index and then the stores.\<close>

definition InMemoryExecutionDatabase_reset ::
  "InMemoryExecutionDatabase \<Rightarrow> InMemoryExecutionDatabase" where
  "InMemoryExecutionDatabase_reset db =
     ExecutionDatabase_reset
       (db\<lparr>strategies := {}, index_order_position := Map.empty,
           index_order_strategy := Map.empty, index_position_strategy := Map.empty,
           index_position_orders := Map.empty, index_strategy_orders := Map.empty,
           index_strategy_positions := Map.empty, index_orders := {},
           index_orders_working := {}, index_orders_completed := {},
           index_positions := {}, index_positions_open := {}, index_positions_closed := {}\<rparr>)"

definition get_strategy_for_order :: "InMemoryExecutionDatabase \<Rightarrow> OrderId \<Rightarrow> StrategyId option" where
  "get_strategy_for_order db oid = index_order_strategy db oid"

definition get_order :: "InMemoryExecutionDatabase \<Rightarrow> OrderId \<Rightarrow> Order option \<times> LogLine list" where
  "get_order db oid =
     (case cached_orders db oid of
        None \<Rightarrow> (None, [(ERROR, ''Cannot find order in the cache.'')])
      | Some ord \<Rightarrow> (Some ord, []))"

definition get_position_id ::
  "InMemoryExecutionDatabase \<Rightarrow> OrderId \<Rightarrow> PositionId option \<times> LogLine list" where
  "get_position_id db oid =
     (case index_order_position db oid of
        None \<Rightarrow> (None, [(ERROR, ''Cannot get position id (no matching position id found).'')])
      | Some pid \<Rightarrow> (Some pid, []))"

definition get_position_for_order ::
  "InMemoryExecutionDatabase \<Rightarrow> OrderId \<Rightarrow> Position option \<times> LogLine list" where
  "get_position_for_order db oid =
     (case get_position_id db oid of
        (None, lines) \<Rightarrow>
          (None, lines @ [(ERROR, ''Cannot get position (no matching position id found).'')])
      | (Some pid, lines) \<Rightarrow> (cached_positions db pid, lines))"

definition count_orders_total :: "InMemoryExecutionDatabase \<Rightarrow> nat" where
  "count_orders_total db = card (index_orders db)"

definition count_orders_working :: "InMemoryExecutionDatabase \<Rightarrow> nat" where
  "count_orders_working db = card (index_orders_working db)"

definition count_orders_completed :: "InMemoryExecutionDatabase \<Rightarrow> nat" where
  "count_orders_completed db = card (index_orders_completed db)"

text \<open>
  A run of database calls. \<open>update_order\<close> is admissible only on an order that has been
  added, that is, whose identifier is in the order index.
\<close>

datatype DatabaseCall = AddOrder Order StrategyId PositionId | UpdateOrder Order

fun run_call :: "DatabaseCall \<Rightarrow> InMemoryExecutionDatabase \<Rightarrow> InMemoryExecutionDatabase" where
  "run_call (AddOrder ord sid pid) db = snd (add_order ord sid pid db)"
| "run_call (UpdateOrder ord) db = update_order ord db"

fun run_calls :: "DatabaseCall list \<Rightarrow> InMemoryExecutionDatabase \<Rightarrow> InMemoryExecutionDatabase" where
  "run_calls [] db = db"
| "run_calls (c # cs) db = run_calls cs (run_call c db)"

fun admissible :: "DatabaseCall list \<Rightarrow> InMemoryExecutionDatabase \<Rightarrow> bool" where
  "admissible [] db = True"
| "admissible (AddOrder ord sid pid # cs) db = admissible cs (run_call (AddOrder ord sid pid) db)"
| "admissible (UpdateOrder ord # cs) db =
     (order_id ord \<in> index_orders db \<and> admissible cs (run_call (UpdateOrder ord) db))"

section \<open>Execution engine\<close>

text \<open>
  The strategies and the portfolio are external collaborators. A registered strategy is its
  identifier, and \<open>delivered\<close> lists the events handed to the strategies' \<open>handle_event\<close>, in
  order. The GUID factory is a counter.

  The event handlers of the engine are declared \<open>cdef void\<close> (or \<open>cpdef void\<close>) without an
  \<open>except\<close> clause. Such a function cannot propagate an exception: the exception is written
  to standard error as unraisable and the function returns at once. \<open>unraisable\<close> lists these
  exceptions.
\<close>

record ExecutionEngine =
  database :: InMemoryExecutionDatabase
  account :: Account
  portfolio :: Portfolio
  registered_strategies :: "StrategyId set"
  command_count :: nat
  event_count :: nat
  engine_guid_count :: nat
  delivered :: "(StrategyId \<times> Event) list"
  log :: "LogLine list"
  unraisable :: "error list"

definition ExecutionEngine_init ::
  "InMemoryExecutionDatabase \<Rightarrow> Account \<Rightarrow> Portfolio \<Rightarrow> ExecutionEngine" where
  "ExecutionEngine_init db acc pf =
     \<lparr>database = db, account = acc, portfolio = pf, registered_strategies = {},
      command_count = 0, event_count = 0, engine_guid_count = 0, delivered = [], log = [],
      unraisable = []\<rparr>"

text \<open>
  \<open>register_strategy\<close>: a failing precondition is absorbed as above, and so is one of
  \<open>add_strategy\<close> inside the database.
\<close>

definition register_strategy :: "StrategyId \<Rightarrow> ExecutionEngine \<Rightarrow> ExecutionEngine" where
  "register_strategy sid eng =
     (if sid \<in> registered_strategies eng
      then eng\<lparr>unraisable := unraisable eng @ [ConditionFailed ''strategy.id'']\<rparr>
      else
        let (r, db1) = add_strategy sid (database eng);
            eng1 = eng\<lparr>registered_strategies := insert sid (registered_strategies eng),
                       database := db1\<rparr>
        in case r of None \<Rightarrow> eng1 | Some err \<Rightarrow> eng1\<lparr>unraisable := unraisable eng1 @ [err]\<rparr>)"

definition deregister_strategy :: "StrategyId \<Rightarrow> ExecutionEngine \<Rightarrow> ExecutionEngine" where
  "deregister_strategy sid eng =
     (if sid \<notin> registered_strategies eng
      then eng\<lparr>unraisable := unraisable eng @ [ConditionFailed ''strategy.id'']\<rparr>
      else eng\<lparr>registered_strategies := registered_strategies eng - {sid}\<rparr>)"

definition send_to_strategy :: "Event \<Rightarrow> StrategyId \<Rightarrow> ExecutionEngine \<Rightarrow> ExecutionEngine" where
  "send_to_strategy event sid eng =
     (if sid \<in> registered_strategies eng
      then eng\<lparr>delivered := delivered eng @ [(sid, event)]\<rparr>
      else eng\<lparr>log := log eng @
             [(ERROR, ''Cannot send event to strategy (not found in registered strategies).'')]\<rparr>)"

definition handle_position_event :: "PositionEvent \<Rightarrow> ExecutionEngine \<Rightarrow> ExecutionEngine" where
  "handle_position_event event eng =
     (let eng1 =
        (if pe_kind event = PositionClosed
         then eng\<lparr>portfolio := (portfolio eng)\<lparr>analyzer_returns :=
                 analyzer_returns (portfolio eng) @
                   [(pe_timestamp event, position_id (pe_position event))]\<rparr>\<rparr>
         else eng)
      in send_to_strategy (PositionE event) (pe_strategy_id event) eng1)"

definition handle_account_event :: "AccountStateEvent \<Rightarrow> ExecutionEngine \<Rightarrow> ExecutionEngine" where
  "handle_account_event event eng =
     (if \<not> initialized (account eng) \<or> acc_id (account eng) = Some (ase_account_id event)
      then
        let acc = Account_apply event (account eng)
        in eng\<lparr>account := acc, database := update_account acc (database eng),
               portfolio := (portfolio eng)\<lparr>transactions :=
                 transactions (portfolio eng) @ [event]\<rparr>\<rparr>
      else eng\<lparr>log := log eng @
             [(WARNING, ''Cannot process event (event not for this account).'')]\<rparr>)"

text \<open>
  \<open>_position_opened\<close>, \<open>_position_modified\<close> and \<open>_position_closed\<close> build the position
  event, send the fill to the strategy and end with \<open>self.handle_event(position_event)\<close>.
  That call is the last action of each of them, of \<open>_handle_order_fill\<close> and of the fill
  branch of \<open>_handle_order_event\<close>; the model returns the position event to \<open>handle_event\<close>,
  which makes the nested call.
\<close>

definition position_event ::
  "PositionEventKind \<Rightarrow> Position \<Rightarrow> StrategyId \<Rightarrow> OrderEvent \<Rightarrow> ExecutionEngine \<Rightarrow>
   ExecutionEngine \<times> PositionEvent option" where
  "position_event kind pos sid event eng =
     (let pe = \<lparr>pe_position = pos, pe_strategy_id = sid, pe_order_fill = event,
                pe_id = engine_guid_count eng, pe_timestamp = ev_timestamp event,
                pe_kind = kind\<rparr>;
          eng1 = eng\<lparr>engine_guid_count := engine_guid_count eng + 1\<rparr>
      in (send_to_strategy (OrderE event) sid eng1, Some pe))"

definition position_opened ::
  "Position \<Rightarrow> StrategyId \<Rightarrow> OrderEvent \<Rightarrow> ExecutionEngine \<Rightarrow>
   ExecutionEngine \<times> PositionEvent option" where
  "position_opened = position_event PositionOpened"

definition position_modified ::
  "Position \<Rightarrow> StrategyId \<Rightarrow> OrderEvent \<Rightarrow> ExecutionEngine \<Rightarrow>
   ExecutionEngine \<times> PositionEvent option" where
  "position_modified = position_event PositionModified"

definition position_closed ::
  "Position \<Rightarrow> StrategyId \<Rightarrow> OrderEvent \<Rightarrow> ExecutionEngine \<Rightarrow>
   ExecutionEngine \<times> PositionEvent option" where
  "position_closed = position_event PositionClosed"

definition absorb :: "error option \<Rightarrow> ExecutionEngine \<Rightarrow> ExecutionEngine" where
  "absorb r eng = (case r of None \<Rightarrow> eng | Some err \<Rightarrow> eng\<lparr>unraisable := unraisable eng @ [err]\<rparr>)"

definition handle_order_fill ::
  "OrderEvent \<Rightarrow> StrategyId \<Rightarrow> ExecutionEngine \<Rightarrow> ExecutionEngine \<times> PositionEvent option" where
  "handle_order_fill event sid eng =
     (case get_position_id (database eng) (ev_order_id event) of
        (None, lines) \<Rightarrow>
          (eng\<lparr>log := log eng @ lines @
              [(ERROR, ''Cannot process event (position id for order not found).'')]\<rparr>, None)
      | (Some pid, lines) \<Rightarrow>
          (case get_position_for_order (database eng) (ev_order_id event) of
             (None, lines') \<Rightarrow>
               let pos = Position_init pid event;
                   (r, db1) = add_position pos sid (database eng)
               in position_opened pos sid event
                    (absorb r (eng\<lparr>database := db1, log := log eng @ lines @ lines'\<rparr>))
           | (Some pos0, lines') \<Rightarrow>
               let pos = Position_apply event pos0;
                   db1 = update_position pos
                           ((database eng)\<lparr>cached_positions :=
                               (cached_positions (database eng))(pid \<mapsto> pos)\<rparr>);
                   eng1 = eng\<lparr>database := db1, log := log eng @ lines @ lines'\<rparr>
               in if is_closed pos then position_closed pos sid event eng1
                  else position_modified pos sid event eng1))"

text \<open>
  \<open>_handle_order_event\<close>: an exception of \<open>order.apply\<close> ends the handler there; the order
  object stays in the store as the raise left it.
\<close>

definition handle_order_event ::
  "OrderEvent \<Rightarrow> ExecutionEngine \<Rightarrow> ExecutionEngine \<times> PositionEvent option" where
  "handle_order_event event eng =
     (case get_order (database eng) (ev_order_id event) of
        (None, lines) \<Rightarrow>
          (eng\<lparr>log := log eng @ lines @ [(ERROR, ''Cannot process event (order not found).'')]\<rparr>,
           None)
      | (Some ord0, lines) \<Rightarrow>
          (case Order_apply event ord0 of
             (Some err, ord) \<Rightarrow>
               (absorb (Some err)
                  (eng\<lparr>database := (database eng)\<lparr>cached_orders :=
                          (cached_orders (database eng))(ev_order_id event \<mapsto> ord)\<rparr>\<rparr>),
                None)
           | (None, ord) \<Rightarrow>
               let db1 = update_order ord
                           ((database eng)\<lparr>cached_orders :=
                               (cached_orders (database eng))(ev_order_id event \<mapsto> ord)\<rparr>);
                   eng1 = eng\<lparr>database := db1\<rparr>
               in case get_strategy_for_order db1 (ev_order_id event) of
                    None \<Rightarrow>
                      (eng1\<lparr>log := log eng1 @
                          [(ERROR, ''Cannot process event (strategy not found)'')]\<rparr>, None)
                  | Some sid \<Rightarrow>
                      (if is_fill event then handle_order_fill event sid eng1
                       else (send_to_strategy (OrderE event) sid eng1, None))))"

text \<open>
  \<open>handle_event\<close> (\<open>_handle_event\<close>): the count is incremented first, then the event is
  dispatched on its class. The nested \<open>handle_event\<close> call for a derived position event is
  the recursive call here.
\<close>

function handle_event :: "Event \<Rightarrow> ExecutionEngine \<Rightarrow> ExecutionEngine" where
  "handle_event event eng =
     (let eng1 = eng\<lparr>event_count := event_count eng + 1\<rparr>
      in case event of
           OrderE oe \<Rightarrow>
             (case handle_order_event oe eng1 of
                (eng2, None) \<Rightarrow> eng2
              | (eng2, Some pe) \<Rightarrow> handle_event (PositionE pe) eng2)
         | PositionE pe \<Rightarrow> handle_position_event pe eng1
         | AccountE ae \<Rightarrow> handle_account_event ae eng1
         | OtherEvent \<Rightarrow> eng1)"
  by pat_completeness auto
termination
  by (relation "measure (\<lambda>(event, eng). case event of OrderE _ \<Rightarrow> 1 | _ \<Rightarrow> 0)") auto

declare handle_event.simps [simp del]

text \<open>\<open>ExecutionEngine.reset\<close> resets the database and nothing else.\<close>

definition ExecutionEngine_reset :: "ExecutionEngine \<Rightarrow> ExecutionEngine" where
  "ExecutionEngine_reset eng = eng\<lparr>database := InMemoryExecutionDatabase_reset (database eng)\<rparr>"

text \<open>\<open>ExecutionEngine._reset\<close>, which no method of the class calls.\<close>

definition ExecutionEngine_private_reset :: "ExecutionEngine \<Rightarrow> ExecutionEngine" where
  "ExecutionEngine_private_reset eng =
     eng\<lparr>registered_strategies := {}, command_count := 0, event_count := 0\<rparr>"

section \<open>Timers and the test clock\<close>

text \<open>
  A handler is a callable supplied by the caller; it is the name it goes by. The identifier
  of a time event comes from a GUID factory outside the sources and is left out of
  \<open>TimeEvent\<close>: an event is the label of its timer and its timestamp.
\<close>

type_synonym Handler = string

record TimeEvent =
  te_label :: Label
  te_timestamp :: datetime

record TimeEventHandler =
  teh_event :: TimeEvent
  teh_handler :: Handler

record TestTimer =
  timer_label :: Label
  callback :: Handler
  interval :: timedelta
  start_time :: datetime
  next_time :: datetime
  stop_time :: "datetime option"
  expired :: bool

definition TestTimer_init ::
  "Label \<Rightarrow> Handler \<Rightarrow> timedelta \<Rightarrow> datetime \<Rightarrow> datetime option \<Rightarrow> error + TestTimer" where
  "TestTimer_init lbl cb ival start stop =
     (if \<not> 0 < ival then Inl (ConditionFailed ''interval'')
      else if (case stop of None \<Rightarrow> False | Some st \<Rightarrow> \<not> start + ival \<le> st)
        then Inl (ConditionFailed ''start_time + interval <= stop_time'')
      else Inr \<lparr>timer_label = lbl, callback = cb, interval = ival, start_time = start,
                next_time = start + ival, stop_time = stop, expired = False\<rparr>)"

definition iterate_event :: "datetime \<Rightarrow> TestTimer \<Rightarrow> TimeEvent \<times> TestTimer" where
  "iterate_event now t =
     (let event = \<lparr>te_label = timer_label t, te_timestamp = next_time t\<rparr>;
          t1 = t\<lparr>next_time := next_time t + interval t\<rparr>
      in (event, if (case stop_time t1 of None \<Rightarrow> False | Some st \<Rightarrow> now \<ge> st)
                 then t1\<lparr>expired := True\<rparr> else t1))"

text \<open>
  \<open>TestTimer.advance\<close>: the \<open>while\<close> loop, with the list of events so far as accumulator.
  With an interval that is not positive the loop need not end, so the result is an option
  and \<open>None\<close> stands for a loop that runs forever.
\<close>

partial_function (option) advance_loop ::
  "datetime \<Rightarrow> TestTimer \<Rightarrow> TimeEvent list \<Rightarrow> (TimeEvent list \<times> TestTimer) option" where
  "advance_loop to_time t time_events =
     (if \<not> expired t \<and> to_time \<ge> next_time t
      then advance_loop to_time (snd (iterate_event (next_time t) t))
             (time_events @ [fst (iterate_event (next_time t) t)])
      else Some (time_events, t))"

declare advance_loop.simps [code]

definition advance :: "datetime \<Rightarrow> TestTimer \<Rightarrow> (TimeEvent list \<times> TestTimer) option" where
  "advance to_time t = advance_loop to_time t []"

definition cancel :: "TestTimer \<Rightarrow> TestTimer" where
  "cancel t = t\<lparr>expired := True\<rparr>"

text \<open>
  \<open>_timers\<close> is a dictionary, which keeps its keys in insertion order: an association list.
  \<open>_stack\<close> is the array of the timer objects of \<open>_timers\<close> in that order; the objects are
  shared between the two, so the stack refers to each timer by the label under which
  \<open>_timers\<close> holds it.
\<close>

record TestClock =
  timers :: "(Label \<times> TestTimer) list"
  handlers :: "Label \<rightharpoonup> Handler"
  stack :: "Label list"
  default_handler :: "Handler option"
  timer_count :: nat
  next_event_time :: "datetime option"
  clock_time :: datetime

definition TestClock_init :: "datetime \<Rightarrow> TestClock" where
  "TestClock_init initial_time =
     \<lparr>timers = [], handlers = Map.empty, stack = [], default_handler = None,
      timer_count = 0, next_event_time = None, clock_time = initial_time\<rparr>"

definition UNIX_EPOCH :: datetime where
  "UNIX_EPOCH = 0"

definition time_now :: "TestClock \<Rightarrow> datetime" where
  "time_now c = clock_time c"

definition set_time :: "datetime \<Rightarrow> TestClock \<Rightarrow> TestClock" where
  "set_time to_time c = c\<lparr>clock_time := to_time\<rparr>"

definition register_default_handler :: "Handler \<Rightarrow> TestClock \<Rightarrow> TestClock" where
  "register_default_handler h c = c\<lparr>default_handler := Some h\<rparr>"

definition update_stack :: "TestClock \<Rightarrow> TestClock" where
  "update_stack c = c\<lparr>timer_count := length (timers c), stack := map fst (timers c)\<rparr>"

text \<open>The \<open>next_time\<close> of the timers of the stack, in stack order.\<close>

definition stack_next_times :: "TestClock \<Rightarrow> datetime list" where
  "stack_next_times c =
     List.map_filter (\<lambda>l. map_option next_time (map_of (timers c) l)) (stack c)"

text \<open>
  \<open>_update_timing\<close>: the minimum of the \<open>next_time\<close> of the stack, by a linear scan from
  its first element over the \<open>timer_count - 1\<close> elements that follow.
\<close>

definition update_timing :: "TestClock \<Rightarrow> TestClock" where
  "update_timing c =
     (if timer_count c = 0 then c\<lparr>next_event_time := None\<rparr>
      else case stack_next_times c of
          [] \<Rightarrow> c
        | first # rest \<Rightarrow>
            if timer_count c = 1 then c\<lparr>next_event_time := Some first\<rparr>
            else c\<lparr>next_event_time :=
                     Some (fold (\<lambda>observed nt. if observed < nt then observed else nt)
                             (take (timer_count c - 1) rest) first)\<rparr>)"

definition add_timer :: "TestTimer \<Rightarrow> Handler \<Rightarrow> TestClock \<Rightarrow> TestClock" where
  "add_timer t h c =
     update_timing (update_stack
       (c\<lparr>timers := AList.update (timer_label t) t (timers c),
          handlers := (handlers c)(timer_label t \<mapsto> h)\<rparr>))"

definition remove_timer :: "Label \<Rightarrow> TestClock \<Rightarrow> TestClock" where
  "remove_timer lbl c =
     update_timing (update_stack
       (c\<lparr>timers := AList.delete lbl (timers c), handlers := (handlers c)(lbl := None)\<rparr>))"

definition set_time_alert ::
  "Label \<Rightarrow> datetime \<Rightarrow> Handler option \<Rightarrow> TestClock \<Rightarrow> error + TestClock" where
  "set_time_alert lbl alert_time handler c =
     (let handler = (if handler = None then default_handler c else handler);
          now = time_now c
      in if lbl \<in> fst ` set (timers c) then Inl (ConditionFailed ''label'')
         else if lbl \<in> dom (handlers c) then Inl (ConditionFailed ''label'')
         else if \<not> alert_time \<ge> now then Inl (ConditionFailed ''alert_time >= time_now()'')
         else case handler of
             None \<Rightarrow> Inl (ConditionFailed ''handler'')
           | Some h \<Rightarrow>
               (case TestTimer_init lbl h (alert_time - now) now (Some alert_time) of
                  Inl err \<Rightarrow> Inl err
                | Inr t \<Rightarrow> Inr (add_timer t h c)))"

definition set_timer ::
  "Label \<Rightarrow> timedelta \<Rightarrow> datetime option \<Rightarrow> datetime option \<Rightarrow> Handler option \<Rightarrow>
   TestClock \<Rightarrow> error + TestClock" where
  "set_timer lbl ival start stop handler c =
     (let handler = (if handler = None then default_handler c else handler)
      in if lbl \<in> fst ` set (timers c) then Inl (ConditionFailed ''label'')
         else if lbl \<in> dom (handlers c) then Inl (ConditionFailed ''label'')
         else if \<not> ival > 0 then Inl (ConditionFailed ''interval positive'')
         else case handler of
             None \<Rightarrow> Inl (ConditionFailed ''handler'')
           | Some h \<Rightarrow>
               let now = time_now c;
                   start = (case start of None \<Rightarrow> now | Some st \<Rightarrow> st)
               in if (case stop of None \<Rightarrow> False | Some sp \<Rightarrow> \<not> sp > now)
                  then Inl (ConditionFailed ''stop_time > now'')
                  else if (case stop of None \<Rightarrow> False | Some sp \<Rightarrow> \<not> start + ival \<le> sp)
                  then Inl (ConditionFailed ''start_time + interval <= stop_time'')
                  else case TestTimer_init lbl h ival start stop of
                         Inl err \<Rightarrow> Inl err
                       | Inr t \<Rightarrow> Inr (add_timer t h c))"

definition cancel_timer :: "Label \<Rightarrow> TestClock \<Rightarrow> TestClock" where
  "cancel_timer lbl c =
     (case map_of (timers c) lbl of
        None \<Rightarrow> c
      | Some t \<Rightarrow> remove_timer lbl (c\<lparr>timers := AList.delete lbl (timers c),
                                      handlers := (handlers c)(lbl := None)\<rparr>))"

text \<open>
  The first loop of \<open>advance_time\<close>: every timer of the stack is advanced, which mutates
  the timer object, and its events are bundled with its callback.
\<close>

fun advance_timers ::
  "datetime \<Rightarrow> Label list \<Rightarrow> TestClock \<Rightarrow> (TimeEventHandler list \<times> TestClock) option" where
  "advance_timers to_time [] c = Some ([], c)"
| "advance_timers to_time (l # ls) c =
     (case map_of (timers c) l of
        None \<Rightarrow> advance_timers to_time ls c
      | Some t \<Rightarrow>
          (case advance to_time t of
             None \<Rightarrow> None
           | Some (evs, t') \<Rightarrow>
               (case advance_timers to_time ls (c\<lparr>timers := AList.update l t' (timers c)\<rparr>) of
                  None \<Rightarrow> None
                | Some (rest, c') \<Rightarrow>
                    Some (map (\<lambda>e. \<lparr>teh_event = e, teh_handler = callback t'\<rparr>) evs @ rest, c'))))"

text \<open>
  The second loop runs over the array that was the stack when the loop began and removes
  each timer that has expired.
\<close>

fun remove_expired :: "Label list \<Rightarrow> TestClock \<Rightarrow> TestClock" where
  "remove_expired [] c = c"
| "remove_expired (l # ls) c =
     (case map_of (timers c) l of
        None \<Rightarrow> remove_expired ls c
      | Some t \<Rightarrow> remove_expired ls (if expired t then remove_timer l c else c))"

text \<open>
  \<open>TestClock.advance_time\<close>. With timers present and no next event time the comparison
  \<open>to_time < None\<close> raises; \<open>None\<close> as result stands for a timer loop that runs forever.
\<close>

definition advance_time ::
  "datetime \<Rightarrow> TestClock \<Rightarrow> (error + TimeEventHandler list \<times> TestClock) option" where
  "advance_time to_time c =
     (if timer_count c = 0 then Some (Inr ([], c))
      else case next_event_time c of
          None \<Rightarrow> Some (Inl TypeError)
        | Some n \<Rightarrow>
            if to_time < n then Some (Inr ([], c))
            else case advance_timers to_time (stack c) c of
                None \<Rightarrow> None
              | Some (evs, c1) \<Rightarrow>
                  Some (Inr (evs,
                    (update_timing (remove_expired (stack c1) c1))\<lparr>clock_time := to_time\<rparr>)))"

section \<open>Concrete scenarios\<close>

text \<open>Prices at two decimal places, in hundredths.\<close>

definition price2 :: "int \<Rightarrow> Price" where
  "price2 hundredths = \<lparr>dec_value = of_int hundredths / 100, precision = 2\<rparr>"

text \<open>A LIMIT SELL of 100 at 150.00, and the events sent for it.\<close>

definition limit_sell_100 :: "error + Order" where
  "limit_sell_100 =
     Order_init ''O-1'' ''AAPL'' SELL LIMIT 100 0 0 (Some (price2 15000)) None
       OrderPurpose_NONE DAY None"

definition fill_event :: "OrderId \<Rightarrow> ExecutionId \<Rightarrow> datetime \<Rightarrow> Quantity \<Rightarrow> Price \<Rightarrow> OrderEvent" where
  "fill_event oid eid ts qty avg =
     \<lparr>ev_order_id = oid, ev_account_id = None, ev_id = 0, ev_timestamp = ts,
      ev_kind = OrderFillEvent
        \<lparr>fill_execution_id = eid, fill_position_id_broker = ''PB-1'',
         fill_order_side = SELL, fill_filled_quantity = qty, fill_average_price = avg\<rparr>\<rparr>"

definition working_event :: "OrderId \<Rightarrow> datetime \<Rightarrow> OrderEvent" where
  "working_event oid ts =
     \<lparr>ev_order_id = oid, ev_account_id = None, ev_id = 0, ev_timestamp = ts,
      ev_kind = OrderWorking ''B-1''\<rparr>"

definition factory0 :: OrderFactory where
  "factory0 = \<lparr>id_tag_trader = ''001'', id_tag_strategy = ''001'', factory_count = 0,
               factory_now = 0, guid_count = 0\<rparr>"

definition seconds :: "int \<Rightarrow> timedelta" where
  "seconds n = n * 1000000"

text \<open>
  A test clock at the epoch with a time alert at 10 s and then a repeating timer of 3 s from
  the epoch that stops at 9 s; and the same two set in the other order.
\<close>

definition scenario_E :: "error + TestClock" where
  "scenario_E =
     (case set_time_alert ''alert'' (UNIX_EPOCH + seconds 10) (Some ''on_alert'')
             (TestClock_init UNIX_EPOCH) of
        Inl err \<Rightarrow> Inl err
      | Inr c \<Rightarrow>
          set_timer ''timer'' (seconds 3) None (Some (UNIX_EPOCH + seconds 9))
            (Some ''on_timer'') c)"

definition scenario_E_timer_first :: "error + TestClock" where
  "scenario_E_timer_first =
     (case set_timer ''timer'' (seconds 3) None (Some (UNIX_EPOCH + seconds 9))
             (Some ''on_timer'') (TestClock_init UNIX_EPOCH) of
        Inl err \<Rightarrow> Inl err
      | Inr c \<Rightarrow> set_time_alert ''alert'' (UNIX_EPOCH + seconds 10) (Some ''on_alert'') c)"

definition advance_scenario ::
  "error + TestClock \<Rightarrow> datetime \<Rightarrow> (error + TimeEventHandler list \<times> TestClock) option" where
  "advance_scenario r to_time =
     (case r of Inl err \<Rightarrow> Some (Inl err) | Inr c \<Rightarrow> advance_time to_time c)"

text \<open>What a call of \<open>advance_time\<close> shows: the timestamps returned, in order, and the clock.\<close>

definition timestamps :: "TimeEventHandler list \<Rightarrow> datetime list" where
  "timestamps evs = map (\<lambda>e. te_timestamp (teh_event e)) evs"

text \<open>
  An engine with strategy S-1 registered and a MARKET BUY of 100 submitted for it under
  position P-1, and the order events sent for that order.
\<close>

definition market_buy_100 :: "error + Order" where
  "market_buy_100 =
     Order_init ''O-2'' ''AAPL'' BUY MARKET 100 0 0 None None OrderPurpose_NONE DAY None"

definition account0 :: Account where
  "account0 = \<lparr>initialized = False, acc_id = None, cash_balance = 0, last_updated = None,
               acc_events = [], acc_event_count = 0\<rparr>"

definition portfolio0 :: Portfolio where
  "portfolio0 = \<lparr>transactions = [], analyzer_returns = []\<rparr>"

definition engine_A :: ExecutionEngine where
  "engine_A =
     (let eng = register_strategy ''S-1''
                  (ExecutionEngine_init InMemoryExecutionDatabase_init account0 portfolio0)
      in eng\<lparr>database := snd (add_order (projr market_buy_100) ''S-1'' ''P-1'' (database eng))\<rparr>)"

definition order_event :: "OrderId \<Rightarrow> AccountId option \<Rightarrow> datetime \<Rightarrow> OrderEventKind \<Rightarrow> OrderEvent" where
  "order_event oid acc ts kind =
     \<lparr>ev_order_id = oid, ev_account_id = acc, ev_id = 0, ev_timestamp = ts, ev_kind = kind\<rparr>"

definition buy_fill_100 :: Fill where
  "buy_fill_100 =
     \<lparr>fill_execution_id = ''E-1'', fill_position_id_broker = ''PB-1'', fill_order_side = BUY,
      fill_filled_quantity = 100, fill_average_price = price2 15000\<rparr>"

text \<open>Events handled one after the other.\<close>

fun handle_events :: "Event list \<Rightarrow> ExecutionEngine \<Rightarrow> ExecutionEngine" where
  "handle_events [] eng = eng"
| "handle_events (e # es) eng = handle_events es (handle_event e eng)"

text \<open>
  A run of database calls: two orders are added, the first becomes working, the second is
  filled, and the first is filled.
\<close>

definition example_calls :: "DatabaseCall list" where
  "example_calls =
     [AddOrder (projr limit_sell_100) ''S-1'' ''P-1'',
      AddOrder (projr market_buy_100) ''S-1'' ''P-1'',
      UpdateOrder (projr (then_apply limit_sell_100 [working_event ''O-1'' 1])),
      UpdateOrder (projr (then_apply market_buy_100
         [order_event ''O-2'' None 1 (OrderFillEvent buy_fill_100)])),
      UpdateOrder (projr (then_apply limit_sell_100
         [working_event ''O-1'' 1, fill_event ''O-1'' ''E-1'' 2 100 (price2 15000)]))]"

section \<open>Invariants\<close>

text \<open>A filled order is completed and not working.\<close>

definition filled_ok :: "Order \<Rightarrow> bool" where
  "filled_ok ord = (if state ord = FILLED then is_completed ord \<and> \<not> is_working ord else True)"

text \<open>
  The working and the completed index are disjoint parts of the (finite) order index.
\<close>

definition partition_ok :: "InMemoryExecutionDatabase \<Rightarrow> bool" where
  "partition_ok db =
     (finite (index_orders db) \<and>
      index_orders_working db \<inter> index_orders_completed db = {} \<and>
      index_orders_working db \<subseteq> index_orders db \<and>
      index_orders_completed db \<subseteq> index_orders db)"

text \<open>
  An order event is processed through to a position event when its order is in the store,
  it is a fill that \<open>Order.apply\<close> accepts, and the order has a strategy and a position
  identifier in the indexes.
\<close>

definition derives_position_event :: "OrderEvent \<Rightarrow> ExecutionEngine \<Rightarrow> bool" where
  "derives_position_event oe eng =
     (case cached_orders (database eng) (ev_order_id oe) of
        None \<Rightarrow> False
      | Some ord \<Rightarrow>
          is_fill oe \<and> fst (Order_apply oe ord) = None \<and>
          index_order_strategy (database eng) (ev_order_id oe) \<noteq> None \<and>
          index_order_position (database eng) (ev_order_id oe) \<noteq> None)"

section \<open>Order: fills and flags\<close>

lemmas order_eval =
  then_apply_def limit_sell_100_def Order_init_def PRICED_ORDER_TYPES_def fill_event_def
  working_event_def Order_apply_def set_slippage_def set_filled_state_def
  set_is_completed_true_def set_is_working_true_def as_double_def price2_def Let_def

lemma Order_apply_fill:
  assumes "ev_kind event = OrderFillEvent fill" and "Order_apply event ord = (None, ord')"
  shows "filled_quantity ord' = fill_filled_quantity fill"
    and "average_price ord' = Some (fill_average_price fill)"
    and "filled_timestamp ord' = Some (ev_timestamp event)"
    and "execution_id ord' = Some (fill_execution_id fill)"
    and "position_id_broker ord' = Some (fill_position_id_broker fill)"
    and "execution_ids ord' = insert (fill_execution_id fill) (execution_ids ord)"
    and "quantity ord' = quantity ord"
    and "state ord' =
          (if fill_filled_quantity fill < quantity ord then PARTIALLY_FILLED
           else if fill_filled_quantity fill = quantity ord then FILLED else OVER_FILLED)"
    and "state ord' \<noteq> FILLED \<Longrightarrow> is_working ord' = is_working ord"
    and "state ord' \<noteq> FILLED \<Longrightarrow> is_completed ord' = is_completed ord"
  using assms
  by (auto simp: Order_apply_def set_slippage_def set_filled_state_def
      set_is_completed_true_def Let_def split: if_splits option.splits)

lemma filled_ok_init:
  "Order_init oid smb oside otype qty iid ts pr lbl purp tif expire = Inr ord \<Longrightarrow> filled_ok ord"
  by (auto simp: Order_init_def filled_ok_def Let_def split: if_splits)

lemma filled_ok_apply:
  assumes "filled_ok ord" and "Order_apply e ord = (None, ord')"
  shows "filled_ok ord'"
proof (cases "ev_kind e")
  case (OrderFillEvent fill)
  with assms show ?thesis
    by (auto simp: Order_apply_def set_slippage_def set_filled_state_def filled_ok_def
        set_is_completed_true_def Let_def split: if_splits option.splits)
qed (use assms in \<open>auto simp: Order_apply_def filled_ok_def set_is_completed_true_def
        set_is_working_true_def Let_def split: if_splits\<close>)

lemma filled_ok_apply_all:
  "filled_ok ord \<Longrightarrow> apply_all es ord = (None, ord') \<Longrightarrow> filled_ok ord'"
proof (induction es arbitrary: ord)
  case Nil
  then show ?case by simp
next
  case (Cons e es)
  obtain r ord1 where step: "Order_apply e ord = (r, ord1)" by (cases "Order_apply e ord")
  with Cons.prems(2) have r: "r = None" and rest: "apply_all es ord1 = (None, ord')"
    by (auto split: option.splits)
  from Cons.prems(1) step r have "filled_ok ord1" by (auto intro: filled_ok_apply)
  from this rest show ?case by (rule Cons.IH)
qed

lemma apply_all_snoc:
  "apply_all (es @ [e]) ord =
     (case apply_all es ord of
        (Some err, ord') \<Rightarrow> (Some err, ord')
      | (None, ord') \<Rightarrow> Order_apply e ord')"
  by (induction es arbitrary: ord) (auto split: prod.splits option.splits)

lemma fills_keep_quantity:
  "\<forall>e \<in> set es. is_fill e \<Longrightarrow> apply_all es ord = (None, ord') \<Longrightarrow> quantity ord' = quantity ord"
proof (induction es arbitrary: ord)
  case Nil
  then show ?case by simp
next
  case (Cons e es)
  obtain r ord1 where step: "Order_apply e ord = (r, ord1)" by (cases "Order_apply e ord")
  with Cons.prems(2) have r: "r = None" and rest: "apply_all es ord1 = (None, ord')"
    by (auto split: option.splits)
  from Cons.prems(1) obtain fill where "ev_kind e = OrderFillEvent fill"
    by (auto simp: is_fill_def split: OrderEventKind.splits)
  with step r have "quantity ord1 = quantity ord" by (auto dest: Order_apply_fill(7))
  moreover from Cons.prems(1) rest have "quantity ord' = quantity ord1"
    by (intro Cons.IH) auto
  ultimately show ?case by simp
qed

text \<open>
  C1 (counterexample). A LIMIT order of quantity 100, straight from its construction: a fill
  of 150 puts it in state \<open>OVER_FILLED\<close> with \<open>is_completed\<close> false, and a fill of 40 puts it
  in state \<open>PARTIALLY_FILLED\<close> with \<open>is_working\<close> false.
\<close>

theorem over_filled_not_completed:
  "map_sum id (\<lambda>ord. (state ord, is_completed ord))
     (then_apply limit_sell_100 [fill_event ''O-1'' ''E-1'' 1 150 (price2 15000)])
     = Inr (OVER_FILLED, False) \<and>
   map_sum id (\<lambda>ord. (state ord, is_working ord))
     (then_apply limit_sell_100 [fill_event ''O-1'' ''E-1'' 1 40 (price2 15000)])
     = Inr (PARTIALLY_FILLED, False)"
  by (simp add: order_eval)

text \<open>
  C1 (amended). For every order, from its construction through every sequence of
  successfully applied events: when the state is \<open>FILLED\<close>, \<open>is_completed\<close> is true and
  \<open>is_working\<close> is false. A fill that leaves the order in another state
  (\<open>PARTIALLY_FILLED\<close> or \<open>OVER_FILLED\<close>) leaves \<open>is_working\<close> and \<open>is_completed\<close> as they
  were before the fill.
\<close>

theorem filled_order_flags:
  assumes "Order_init oid smb oside otype qty iid ts pr lbl purp tif expire = Inr ord0"
    and "apply_all es ord0 = (None, ord)"
  shows "(state ord = FILLED \<longrightarrow> is_completed ord \<and> \<not> is_working ord) \<and>
         (is_fill e \<and> Order_apply e ord = (None, ord') \<and> state ord' \<noteq> FILLED \<longrightarrow>
            state ord' \<in> {PARTIALLY_FILLED, OVER_FILLED} \<and>
            is_working ord' = is_working ord \<and> is_completed ord' = is_completed ord)"
proof -
  from assms have "filled_ok ord"
    by (auto intro: filled_ok_apply_all filled_ok_init)
  then have first: "state ord = FILLED \<longrightarrow> is_completed ord \<and> \<not> is_working ord"
    by (simp add: filled_ok_def split: if_splits)
  have second: "state ord' \<in> {PARTIALLY_FILLED, OVER_FILLED} \<and>
      is_working ord' = is_working ord \<and> is_completed ord' = is_completed ord"
    if "is_fill e" and "Order_apply e ord = (None, ord')" and "state ord' \<noteq> FILLED"
  proof -
    from that(1) obtain fill where "ev_kind e = OrderFillEvent fill"
      by (auto simp: is_fill_def split: OrderEventKind.splits)
    from Order_apply_fill(8,9,10)[OF this that(2)] that(3) show ?thesis
      by (auto split: if_splits)
  qed
  from first second show ?thesis by blast
qed

theorem filled_order_flags_witness:
  "state (projr (then_apply limit_sell_100
       [working_event ''O-1'' 1, fill_event ''O-1'' ''E-1'' 2 100 (price2 15010)])) = FILLED \<and>
   is_completed (projr (then_apply limit_sell_100
       [working_event ''O-1'' 1, fill_event ''O-1'' ''E-1'' 2 100 (price2 15010)])) \<and>
   is_working (projr (then_apply limit_sell_100
       [working_event ''O-1'' 1, fill_event ''O-1'' ''E-1'' 2 40 (price2 15010)])) \<and>
   state (projr (then_apply limit_sell_100
       [working_event ''O-1'' 1, fill_event ''O-1'' ''E-1'' 2 40 (price2 15010)])) = PARTIALLY_FILLED"
proof -
  let ?es = "[working_event ''O-1'' 1, fill_event ''O-1'' ''E-1'' 2 100 (price2 15010)]"
  have init: "Order_init ''O-1'' ''AAPL'' SELL LIMIT 100 0 0 (Some (price2 15000)) None
       OrderPurpose_NONE DAY None = Inr (projr limit_sell_100)"
    by (simp add: order_eval)
  have run: "apply_all ?es (projr limit_sell_100) = (None, projr (then_apply limit_sell_100 ?es))"
    by (simp add: order_eval)
  have run1: "apply_all [working_event ''O-1'' 1] (projr limit_sell_100) =
      (None, projr (then_apply limit_sell_100 [working_event ''O-1'' 1]))"
    by (simp add: order_eval)
  have step: "is_fill (fill_event ''O-1'' ''E-1'' 2 40 (price2 15010)) \<and>
      Order_apply (fill_event ''O-1'' ''E-1'' 2 40 (price2 15010))
        (projr (then_apply limit_sell_100 [working_event ''O-1'' 1])) =
      (None, projr (then_apply limit_sell_100
         [working_event ''O-1'' 1, fill_event ''O-1'' ''E-1'' 2 40 (price2 15010)])) \<and>
      state (projr (then_apply limit_sell_100
         [working_event ''O-1'' 1, fill_event ''O-1'' ''E-1'' 2 40 (price2 15010)])) \<noteq> FILLED \<and>
      is_working (projr (then_apply limit_sell_100 [working_event ''O-1'' 1]))"
    by (simp add: order_eval is_fill_def)
  have filled: "state (projr (then_apply limit_sell_100 ?es)) = FILLED"
    by (simp add: order_eval)
  from filled_order_flags [OF init run] filled
  have part1: "is_completed (projr (then_apply limit_sell_100 ?es))"
    by simp
  from filled_order_flags [OF init run1,
      where e = "fill_event ''O-1'' ''E-1'' 2 40 (price2 15010)"
        and ord' = "projr (then_apply limit_sell_100
         [working_event ''O-1'' 1, fill_event ''O-1'' ''E-1'' 2 40 (price2 15010)])"] step
  have part2: "is_working (projr (then_apply limit_sell_100
         [working_event ''O-1'' 1, fill_event ''O-1'' ''E-1'' 2 40 (price2 15010)]))"
    by blast
  have part3: "state (projr (then_apply limit_sell_100
       [working_event ''O-1'' 1, fill_event ''O-1'' ''E-1'' 2 40 (price2 15010)])) = PARTIALLY_FILLED"
    by (simp add: order_eval)
  from filled part1 part2 part3 show ?thesis by simp
qed

text \<open>
  C2 (counterexample). LIMIT SELL 100 at 150.00, filled 40 at 150.10 and then 60 at 150.20:
  the order ends \<open>PARTIALLY_FILLED\<close> with a filled quantity of 60 and an average price of
  150.20.
\<close>

theorem split_fills_not_filled:
  "map_sum id (\<lambda>ord. (state ord, filled_quantity ord, average_price ord))
     (then_apply limit_sell_100
        [fill_event ''O-1'' ''E-1'' 1 40 (price2 15010),
         fill_event ''O-1'' ''E-2'' 2 60 (price2 15020)])
     = Inr (PARTIALLY_FILLED, 60, Some (price2 15020))"
  by (simp add: order_eval)

text \<open>
  C2 (amended). After a sequence of successfully applied fills, the state, the filled
  quantity and the average price are those of the last fill alone: the state is \<open>FILLED\<close>
  exactly when the last fill carries the order's quantity, \<open>PARTIALLY_FILLED\<close> when it
  carries less and \<open>OVER_FILLED\<close> when it carries more, and the average price is the one the
  last fill carries. A single fill of the order's quantity is the case of an empty prefix.
\<close>

theorem last_fill_decides:
  assumes "\<forall>e \<in> set es. is_fill e"
    and "ev_kind e = OrderFillEvent fill"
    and "apply_all (es @ [e]) ord = (None, ord')"
  shows "state ord' =
           (if fill_filled_quantity fill < quantity ord then PARTIALLY_FILLED
            else if fill_filled_quantity fill = quantity ord then FILLED else OVER_FILLED) \<and>
         filled_quantity ord' = fill_filled_quantity fill \<and>
         average_price ord' = Some (fill_average_price fill)"
proof -
  obtain r ord1 where pre: "apply_all es ord = (r, ord1)" by (cases "apply_all es ord")
  with assms(3) have r: "r = None" and last: "Order_apply e ord1 = (None, ord')"
    by (auto simp: apply_all_snoc split: option.splits)
  from assms(1) pre r have "quantity ord1 = quantity ord"
    by (auto dest: fills_keep_quantity)
  with Order_apply_fill(1,2,8) [OF assms(2) last] show ?thesis by simp
qed

theorem last_fill_decides_witness:
  "map_sum id (\<lambda>ord. (state ord, filled_quantity ord, average_price ord))
     (then_apply limit_sell_100
        [fill_event ''O-1'' ''E-1'' 1 40 (price2 15010),
         fill_event ''O-1'' ''E-2'' 2 100 (price2 15016)])
     = Inr (FILLED, 100, Some (price2 15016))"
proof -
  let ?e1 = "fill_event ''O-1'' ''E-1'' 1 40 (price2 15010)"
  let ?e2 = "fill_event ''O-1'' ''E-2'' 2 100 (price2 15016)"
  let ?fill = "\<lparr>fill_execution_id = ''E-2'', fill_position_id_broker = ''PB-1'',
         fill_order_side = SELL, fill_filled_quantity = 100, fill_average_price = price2 15016\<rparr>"
  have fills: "\<forall>e \<in> set [?e1]. is_fill e"
    by (simp add: is_fill_def fill_event_def)
  have kind: "ev_kind ?e2 = OrderFillEvent ?fill"
    by (simp add: fill_event_def)
  have run: "apply_all ([?e1] @ [?e2]) (projr limit_sell_100) =
      (None, projr (then_apply limit_sell_100 [?e1, ?e2]))"
    by (simp add: order_eval)
  have ok: "then_apply limit_sell_100 [?e1, ?e2] = Inr (projr (then_apply limit_sell_100 [?e1, ?e2]))"
    by (simp add: order_eval)
  have q: "quantity (projr limit_sell_100) = 100"
    by (simp add: order_eval)
  from last_fill_decides [OF fills kind run] q
  have "state (projr (then_apply limit_sell_100 [?e1, ?e2])) = FILLED \<and>
        filled_quantity (projr (then_apply limit_sell_100 [?e1, ?e2])) = 100 \<and>
        average_price (projr (then_apply limit_sell_100 [?e1, ?e2])) = Some (price2 15016)"
    by simp
  then show ?thesis by (subst ok) simp
qed

text \<open>
  C9. \<open>Order.apply\<close> of a fill sets the filled quantity, the average price, the filled
  timestamp, the execution identifier and the broker's position identifier of the order to
  the values the event carries, whatever they were before, and inserts the execution
  identifier into the set of execution identifiers.
\<close>

theorem fill_overwrites:
  assumes "ev_kind event = OrderFillEvent fill" and "Order_apply event ord = (None, ord')"
  shows "filled_quantity ord' = fill_filled_quantity fill \<and>
         average_price ord' = Some (fill_average_price fill) \<and>
         filled_timestamp ord' = Some (ev_timestamp event) \<and>
         execution_id ord' = Some (fill_execution_id fill) \<and>
         position_id_broker ord' = Some (fill_position_id_broker fill) \<and>
         execution_ids ord' = insert (fill_execution_id fill) (execution_ids ord)"
  using Order_apply_fill(1-6) [OF assms] by simp

theorem fill_overwrites_witness:
  "map_sum id (\<lambda>ord. (filled_quantity ord, average_price ord, filled_timestamp ord,
        execution_id ord, position_id_broker ord, execution_ids ord))
     (then_apply limit_sell_100
        [fill_event ''O-1'' ''E-1'' 1 40 (price2 15010),
         fill_event ''O-1'' ''E-2'' 2 60 (price2 15020)])
     = Inr (60, Some (price2 15020), Some 2, Some ''E-2'', Some ''PB-1'', {''E-2'', ''E-1''})"
proof -
  let ?e1 = "fill_event ''O-1'' ''E-1'' 1 40 (price2 15010)"
  let ?e2 = "fill_event ''O-1'' ''E-2'' 2 60 (price2 15020)"
  let ?fill = "\<lparr>fill_execution_id = ''E-2'', fill_position_id_broker = ''PB-1'',
         fill_order_side = SELL, fill_filled_quantity = 60, fill_average_price = price2 15020\<rparr>"
  have kind: "ev_kind ?e2 = OrderFillEvent ?fill"
    by (simp add: fill_event_def)
  have step: "Order_apply ?e2 (projr (then_apply limit_sell_100 [?e1])) =
      (None, projr (then_apply limit_sell_100 [?e1, ?e2]))"
    by (simp add: order_eval)
  have ok: "then_apply limit_sell_100 [?e1, ?e2] = Inr (projr (then_apply limit_sell_100 [?e1, ?e2]))"
    by (simp add: order_eval)
  have before: "execution_ids (projr (then_apply limit_sell_100 [?e1])) = {''E-1''}"
    by (simp add: order_eval)
  have ts: "ev_timestamp ?e2 = 2"
    by (simp add: fill_event_def)
  from fill_overwrites [OF kind step] before ts
  have "filled_quantity (projr (then_apply limit_sell_100 [?e1, ?e2])) = 60 \<and>
        average_price (projr (then_apply limit_sell_100 [?e1, ?e2])) = Some (price2 15020) \<and>
        filled_timestamp (projr (then_apply limit_sell_100 [?e1, ?e2])) = Some 2 \<and>
        execution_id (projr (then_apply limit_sell_100 [?e1, ?e2])) = Some ''E-2'' \<and>
        position_id_broker (projr (then_apply limit_sell_100 [?e1, ?e2])) = Some ''PB-1'' \<and>
        execution_ids (projr (then_apply limit_sell_100 [?e1, ?e2])) = {''E-2'', ''E-1''}"
    by simp
  then show ?thesis by (subst ok) simp
qed

section \<open>Order construction and the factory\<close>

text \<open>
  C5 (counterexample). A GTD order with timestamp 10 and expire time 5 is constructed.
\<close>

theorem gtd_expired_order_constructed:
  "map_sum id (\<lambda>ord. (time_in_force ord, timestamp ord, expire_time ord))
     (Order_init ''O-1'' ''AAPL'' BUY LIMIT 100 0 10 (Some (price2 15000)) None
        OrderPurpose_NONE GTD (Some 5))
     = Inr (GTD, 10, Some 5)"
  by (simp add: Order_init_def PRICED_ORDER_TYPES_def Let_def)

text \<open>
  C5 (amended). Order construction raises exactly when an enumeration argument is
  \<open>UNDEFINED\<close>, the quantity is not strictly positive, the price is absent for a priced order
  type or present for another type, or the time in force is GTD and the expire time is
  \<open>None\<close>; the expire time is not compared with the timestamp. Every factory method raises
  under the same conditions on what it passes to the constructor: the seven methods that
  build one order, and the three atomic methods, which raise when the entry order raises or
  the stop-loss price is absent.
\<close>

theorem Order_init_fails_iff:
  "isl (Order_init oid smb oside otype qty iid ts pr lbl purp tif expire) =
     (oside = OrderSide_UNDEFINED \<or> otype = OrderType_UNDEFINED \<or>
      purp = OrderPurpose_UNDEFINED \<or> tif = TimeInForce_UNDEFINED \<or> qty \<le> 0 \<or>
      (otype \<in> PRICED_ORDER_TYPES \<and> pr = None) \<or>
      (otype \<notin> PRICED_ORDER_TYPES \<and> pr \<noteq> None) \<or>
      (tif = GTD \<and> expire = None)) \<and>
   isl (fst (limit f smb oside qty pr lbl purp tif expire)) =
     (oside = OrderSide_UNDEFINED \<or> purp = OrderPurpose_UNDEFINED \<or>
      tif = TimeInForce_UNDEFINED \<or> qty \<le> 0 \<or> pr = None \<or> (tif = GTD \<and> expire = None)) \<and>
   isl (fst (market f smb oside qty lbl purp)) =
     (oside = OrderSide_UNDEFINED \<or> purp = OrderPurpose_UNDEFINED \<or> qty \<le> 0) \<and>
   isl (fst (stop_market f smb oside qty pr lbl purp tif expire)) =
     (oside = OrderSide_UNDEFINED \<or> purp = OrderPurpose_UNDEFINED \<or>
      tif = TimeInForce_UNDEFINED \<or> qty \<le> 0 \<or> pr = None \<or> (tif = GTD \<and> expire = None)) \<and>
   isl (fst (stop_limit f smb oside qty pr lbl purp tif expire)) =
     (oside = OrderSide_UNDEFINED \<or> purp = OrderPurpose_UNDEFINED \<or>
      tif = TimeInForce_UNDEFINED \<or> qty \<le> 0 \<or> pr = None \<or> (tif = GTD \<and> expire = None)) \<and>
   isl (fst (market_if_touched f smb oside qty pr lbl purp tif expire)) =
     (oside = OrderSide_UNDEFINED \<or> purp = OrderPurpose_UNDEFINED \<or>
      tif = TimeInForce_UNDEFINED \<or> qty \<le> 0 \<or> pr = None \<or> (tif = GTD \<and> expire = None)) \<and>
   isl (fst (fill_or_kill f smb oside qty lbl purp)) =
     (oside = OrderSide_UNDEFINED \<or> purp = OrderPurpose_UNDEFINED \<or> qty \<le> 0) \<and>
   isl (fst (immediate_or_cancel f smb oside qty lbl purp)) =
     (oside = OrderSide_UNDEFINED \<or> purp = OrderPurpose_UNDEFINED \<or> qty \<le> 0) \<and>
   isl (fst (atomic_market f smb oside qty price_stop_loss price_take_profit lbl)) =
     (oside = OrderSide_UNDEFINED \<or> qty \<le> 0 \<or> price_stop_loss = None) \<and>
   isl (fst (atomic_limit f smb oside qty pr price_stop_loss price_take_profit lbl tif expire)) =
     (oside = OrderSide_UNDEFINED \<or> tif = TimeInForce_UNDEFINED \<or> qty \<le> 0 \<or> pr = None \<or>
      (tif = GTD \<and> expire = None) \<or> price_stop_loss = None) \<and>
   isl (fst (atomic_stop_market f smb oside qty pr price_stop_loss price_take_profit lbl tif
          expire)) =
     (oside = OrderSide_UNDEFINED \<or> tif = TimeInForce_UNDEFINED \<or> qty \<le> 0 \<or> pr = None \<or>
      (tif = GTD \<and> expire = None) \<or> price_stop_loss = None)"
proof -
  have init: "isl (Order_init oid' smb' oside' otype' qty' iid' ts' pr' lbl' purp' tif' expire') =
     (oside' = OrderSide_UNDEFINED \<or> otype' = OrderType_UNDEFINED \<or>
      purp' = OrderPurpose_UNDEFINED \<or> tif' = TimeInForce_UNDEFINED \<or> qty' \<le> 0 \<or>
      (otype' \<in> PRICED_ORDER_TYPES \<and> pr' = None) \<or>
      (otype' \<notin> PRICED_ORDER_TYPES \<and> pr' \<noteq> None) \<or>
      (tif' = GTD \<and> expire' = None))"
    for oid' smb' oside' otype' qty' iid' ts' pr' lbl' purp' tif' expire'
    by (auto simp: Order_init_def Let_def)
  have one: "isl (fst (create_order f' smb' oside' otype' qty' pr' lbl' purp' tif' expire')) =
     (oside' = OrderSide_UNDEFINED \<or> otype' = OrderType_UNDEFINED \<or>
      purp' = OrderPurpose_UNDEFINED \<or> tif' = TimeInForce_UNDEFINED \<or> qty' \<le> 0 \<or>
      (otype' \<in> PRICED_ORDER_TYPES \<and> pr' = None) \<or>
      (otype' \<notin> PRICED_ORDER_TYPES \<and> pr' \<noteq> None) \<or>
      (tif' = GTD \<and> expire' = None))"
    for f' smb' oside' otype' qty' pr' lbl' purp' tif' expire'
    by (simp add: create_order_def id_generate_def guid_generate_def Let_def init)
  have fields: "side (projr (fst (create_order f' smb' oside' otype' qty' pr' lbl' purp' tif' expire')))
        = oside' \<and>
      quantity (projr (fst (create_order f' smb' oside' otype' qty' pr' lbl' purp' tif' expire')))
        = qty'"
    if "\<not> isl (fst (create_order f' smb' oside' otype' qty' pr' lbl' purp' tif' expire'))"
    for f' smb' oside' otype' qty' pr' lbl' purp' tif' expire'
    using that
    by (auto simp: create_order_def id_generate_def guid_generate_def Order_init_def Let_def
        split: if_splits)
  have atomic: "isl (fst (create_atomic_order f' e psl ptp lbl')) = (psl = None)"
    if "side e \<noteq> OrderSide_UNDEFINED" and "0 < quantity e" for f' e psl ptp lbl'
  proof -
    define child where "child = (if side e = SELL then BUY else SELL)"
    define lsl where "lsl = (case lbl' of None \<Rightarrow> None | Some l \<Rightarrow> Some (l @ ''_SL''))"
    define ltp where "ltp = (case lbl' of None \<Rightarrow> None | Some l \<Rightarrow> Some (l @ ''_TP''))"
    have child: "child \<noteq> OrderSide_UNDEFINED" by (simp add: child_def)
    have body: "create_atomic_order f' e psl ptp lbl' =
       (case stop_market f' (symbol e) child (quantity e) psl lsl STOP_LOSS GTC None of
           (Inl err, f1) \<Rightarrow> (Inl err, f1)
         | (Inr sl, f1) \<Rightarrow>
             (if ptp \<noteq> None
              then case limit f1 (symbol e) child (quantity e) ptp ltp TAKE_PROFIT GTC None of
                     (Inl err, f2) \<Rightarrow> (Inl err, f2)
                   | (Inr tp, f2) \<Rightarrow> (Inr (AtomicOrder_init e sl (Some tp)), f2)
              else (Inr (AtomicOrder_init e sl None), f1)))"
      by (simp only: create_atomic_order_def Let_def child_def lsl_def ltp_def)
    obtain r1 f1 where sl_eq:
      "stop_market f' (symbol e) child (quantity e) psl lsl STOP_LOSS GTC None = (r1, f1)"
      by (cases "stop_market f' (symbol e) child (quantity e) psl lsl STOP_LOSS GTC None")
    from that child have "isl (fst (stop_market f' (symbol e) child (quantity e) psl lsl
        STOP_LOSS GTC None)) = (psl = None)"
      by (simp add: stop_market_def one PRICED_ORDER_TYPES_def)
    with sl_eq have sl: "isl r1 = (psl = None)" by simp
    show ?thesis
    proof (cases r1)
      case (Inl err)
      with sl sl_eq show ?thesis unfolding body by simp
    next
      case (Inr s)
      with sl have psl: "psl \<noteq> None" by auto
      show ?thesis
      proof (cases "ptp = None")
        case True
        with Inr psl sl_eq show ?thesis unfolding body by simp
      next
        case False
        obtain r2 f2 where tp_eq:
          "limit f1 (symbol e) child (quantity e) ptp ltp TAKE_PROFIT GTC None = (r2, f2)"
          by (cases "limit f1 (symbol e) child (quantity e) ptp ltp TAKE_PROFIT GTC None")
        from that child False
        have "\<not> isl (fst (limit f1 (symbol e) child (quantity e) ptp ltp TAKE_PROFIT GTC None))"
          by (simp add: limit_def one PRICED_ORDER_TYPES_def)
        with tp_eq obtain t where "r2 = Inr t" by (cases r2) auto
        with Inr psl False sl_eq tp_eq show ?thesis unfolding body by simp
      qed
    qed
  qed
  have via: "isl (fst (case r of (Inl err, f1) \<Rightarrow> (Inl err, f1)
                     | (Inr e, f1) \<Rightarrow> create_atomic_order f1 e psl ptp lbl')) =
      (isl (fst r) \<or> psl = None)"
    if "\<not> isl (fst r) \<Longrightarrow> side (projr (fst r)) \<noteq> OrderSide_UNDEFINED \<and> 0 < quantity (projr (fst r))"
    for r :: "(error + Order) \<times> OrderFactory" and psl ptp lbl'
  proof (cases r)
    case (Pair x f1)
    show ?thesis
    proof (cases x)
      case (Inl err)
      with Pair show ?thesis by simp
    next
      case (Inr e)
      with Pair that have "side e \<noteq> OrderSide_UNDEFINED" and "0 < quantity e" by simp_all
      from atomic [OF this] Pair Inr show ?thesis by simp
    qed
  qed
  have entry: "\<not> isl (fst (create_order f' smb' oside' otype' qty' pr' lbl' purp' tif' expire')) \<Longrightarrow>
      side (projr (fst (create_order f' smb' oside' otype' qty' pr' lbl' purp' tif' expire')))
        \<noteq> OrderSide_UNDEFINED \<and>
      0 < quantity (projr (fst (create_order f' smb' oside' otype' qty' pr' lbl' purp' tif' expire')))"
    for f' smb' oside' otype' qty' pr' lbl' purp' tif' expire'
    using fields [of f' smb' oside' otype' qty' pr' lbl' purp' tif' expire']
      one [of f' smb' oside' otype' qty' pr' lbl' purp' tif' expire']
    by auto
  have lim: "isl (fst (limit f smb oside qty pr lbl purp tif expire)) =
     (oside = OrderSide_UNDEFINED \<or> purp = OrderPurpose_UNDEFINED \<or>
      tif = TimeInForce_UNDEFINED \<or> qty \<le> 0 \<or> pr = None \<or> (tif = GTD \<and> expire = None))"
    by (simp add: limit_def one PRICED_ORDER_TYPES_def)
  have mkt: "isl (fst (market f smb oside qty lbl purp)) =
     (oside = OrderSide_UNDEFINED \<or> purp = OrderPurpose_UNDEFINED \<or> qty \<le> 0)"
    by (simp add: market_def one PRICED_ORDER_TYPES_def)
  have stm: "isl (fst (stop_market f smb oside qty pr lbl purp tif expire)) =
     (oside = OrderSide_UNDEFINED \<or> purp = OrderPurpose_UNDEFINED \<or>
      tif = TimeInForce_UNDEFINED \<or> qty \<le> 0 \<or> pr = None \<or> (tif = GTD \<and> expire = None))"
    by (simp add: stop_market_def one PRICED_ORDER_TYPES_def)
  have stl: "isl (fst (stop_limit f smb oside qty pr lbl purp tif expire)) =
     (oside = OrderSide_UNDEFINED \<or> purp = OrderPurpose_UNDEFINED \<or>
      tif = TimeInForce_UNDEFINED \<or> qty \<le> 0 \<or> pr = None \<or> (tif = GTD \<and> expire = None))"
    by (simp add: stop_limit_def one PRICED_ORDER_TYPES_def)
  have mit: "isl (fst (market_if_touched f smb oside qty pr lbl purp tif expire)) =
     (oside = OrderSide_UNDEFINED \<or> purp = OrderPurpose_UNDEFINED \<or>
      tif = TimeInForce_UNDEFINED \<or> qty \<le> 0 \<or> pr = None \<or> (tif = GTD \<and> expire = None))"
    by (simp add: market_if_touched_def one PRICED_ORDER_TYPES_def)
  have fok: "isl (fst (fill_or_kill f smb oside qty lbl purp)) =
     (oside = OrderSide_UNDEFINED \<or> purp = OrderPurpose_UNDEFINED \<or> qty \<le> 0)"
    by (simp add: fill_or_kill_def one PRICED_ORDER_TYPES_def)
  have ioc: "isl (fst (immediate_or_cancel f smb oside qty lbl purp)) =
     (oside = OrderSide_UNDEFINED \<or> purp = OrderPurpose_UNDEFINED \<or> qty \<le> 0)"
    by (simp add: immediate_or_cancel_def one PRICED_ORDER_TYPES_def)
  have am: "isl (fst (atomic_market f smb oside qty price_stop_loss price_take_profit lbl)) =
     (oside = OrderSide_UNDEFINED \<or> qty \<le> 0 \<or> price_stop_loss = None)"
    unfolding atomic_market_def Let_def market_def
    by (subst via) (use entry in \<open>auto simp: one PRICED_ORDER_TYPES_def\<close>)
  have al: "isl (fst (atomic_limit f smb oside qty pr price_stop_loss price_take_profit lbl tif
          expire)) =
     (oside = OrderSide_UNDEFINED \<or> tif = TimeInForce_UNDEFINED \<or> qty \<le> 0 \<or> pr = None \<or>
      (tif = GTD \<and> expire = None) \<or> price_stop_loss = None)"
    unfolding atomic_limit_def Let_def limit_def
    by (subst via) (use entry in \<open>auto simp: one PRICED_ORDER_TYPES_def\<close>)
  have asm: "isl (fst (atomic_stop_market f smb oside qty pr price_stop_loss price_take_profit lbl
          tif expire)) =
     (oside = OrderSide_UNDEFINED \<or> tif = TimeInForce_UNDEFINED \<or> qty \<le> 0 \<or> pr = None \<or>
      (tif = GTD \<and> expire = None) \<or> price_stop_loss = None)"
    unfolding atomic_stop_market_def Let_def stop_market_def
    by (subst via) (use entry in \<open>auto simp: one PRICED_ORDER_TYPES_def\<close>)
  from init [of oid smb oside otype qty iid ts pr lbl purp tif expire]
    lim mkt stm stl mit fok ioc am al asm
  show ?thesis by (intro conjI)
qed

theorem Order_init_fails_iff_witness:
  "isl (Order_init ''O-1'' ''AAPL'' BUY LIMIT 100 0 10 (Some (price2 15000)) None
        OrderPurpose_NONE GTD None) \<and>
   isl (Order_init ''O-1'' ''AAPL'' BUY LIMIT 0 0 10 (Some (price2 15000)) None
        OrderPurpose_NONE DAY None) \<and>
   isl (Order_init ''O-1'' ''AAPL'' BUY LIMIT 100 0 10 None None OrderPurpose_NONE DAY None) \<and>
   isl (Order_init ''O-1'' ''AAPL'' BUY MARKET 100 0 10 (Some (price2 15000)) None
        OrderPurpose_NONE DAY None) \<and>
   \<not> isl (Order_init ''O-1'' ''AAPL'' BUY LIMIT 100 0 10 (Some (price2 15000)) None
        OrderPurpose_NONE GTD (Some 5)) \<and>
   isl (fst (limit factory0 ''AAPL'' BUY (- 1) (Some (price2 15000)) None OrderPurpose_NONE
        DAY None)) \<and>
   isl (fst (stop_limit factory0 ''AAPL'' BUY 100 (Some (price2 15000)) None OrderPurpose_NONE
        GTD None)) \<and>
   isl (fst (market_if_touched factory0 ''AAPL'' BUY 100 None None OrderPurpose_NONE
        DAY None)) \<and>
   isl (fst (immediate_or_cancel factory0 ''AAPL'' BUY 0 None OrderPurpose_NONE)) \<and>
   isl (fst (atomic_market factory0 ''AAPL'' BUY 100 None (Some (price2 15100)) None)) \<and>
   \<not> isl (fst (atomic_limit factory0 ''AAPL'' BUY 100 (Some (price2 15000))
        (Some (price2 14900)) (Some (price2 15100)) None GTD (Some 5))) \<and>
   isl (fst (atomic_stop_market factory0 ''AAPL'' BUY 100 (Some (price2 15000))
        (Some (price2 14900)) (Some (price2 15100)) None GTD None))"
  using Order_init_fails_iff [of "''O-1''" "''AAPL''" BUY LIMIT 100 0 10 "Some (price2 15000)"
      None OrderPurpose_NONE GTD None factory0 "Some (price2 14900)" "Some (price2 15100)"]
    Order_init_fails_iff [of "''O-1''" "''AAPL''" BUY LIMIT 0 0 10 "Some (price2 15000)"
      None OrderPurpose_NONE DAY None factory0 None "Some (price2 15100)"]
    Order_init_fails_iff [of "''O-1''" "''AAPL''" BUY LIMIT 100 0 10 None
      None OrderPurpose_NONE DAY None factory0 None "Some (price2 15100)"]
    Order_init_fails_iff [of "''O-1''" "''AAPL''" BUY MARKET 100 0 10 "Some (price2 15000)"
      None OrderPurpose_NONE DAY None factory0 None "Some (price2 15100)"]
    Order_init_fails_iff [of "''O-1''" "''AAPL''" BUY LIMIT 100 0 10 "Some (price2 15000)"
      None OrderPurpose_NONE GTD "Some 5" factory0 "Some (price2 14900)" "Some (price2 15100)"]
    Order_init_fails_iff [of "''O-1''" "''AAPL''" BUY LIMIT "- 1" 0 10 "Some (price2 15000)"
      None OrderPurpose_NONE DAY None factory0 None "Some (price2 15100)"]
  by (simp add: PRICED_ORDER_TYPES_def)

lemmas factory_eval =
  atomic_market_def atomic_limit_def atomic_stop_market_def create_atomic_order_def
  market_def limit_def stop_market_def create_order_def id_generate_def guid_generate_def
  AtomicOrder_init_def Order_init_def PRICED_ORDER_TYPES_def factory0_def Let_def

text \<open>
  C4 (the code at the failing input). With the label \<open>L\<close>, \<open>atomic_limit\<close> and
  \<open>atomic_stop_market\<close> label the entry \<open>L\<close>, the stop-loss \<open>L_SL\<close> and the take-profit
  \<open>L_TP\<close>; \<open>atomic_market\<close> labels the entry \<open>L_E\<close>.
\<close>

theorem atomic_limit_entry_label:
  "map_sum id (\<lambda>a. (label (entry a), label (stop_loss a), map_option label (take_profit a)))
     (fst (atomic_limit factory0 ''AAPL'' BUY 10 (Some (price2 10000)) (Some (price2 9900))
             (Some (price2 10100)) (Some ''L'') DAY None))
     = Inr (Some ''L'', Some ''L_SL'', Some (Some ''L_TP'')) \<and>
   map_sum id (\<lambda>a. (label (entry a), label (stop_loss a), map_option label (take_profit a)))
     (fst (atomic_stop_market factory0 ''AAPL'' BUY 10 (Some (price2 10000)) (Some (price2 9900))
             (Some (price2 10100)) (Some ''L'') DAY None))
     = Inr (Some ''L'', Some ''L_SL'', Some (Some ''L_TP'')) \<and>
   map_sum id (\<lambda>a. (label (entry a), label (stop_loss a), map_option label (take_profit a)))
     (fst (atomic_market factory0 ''AAPL'' BUY 10 (Some (price2 9900)) (Some (price2 10100))
             (Some ''L'')))
     = Inr (Some ''L_E'', Some ''L_SL'', Some (Some ''L_TP''))"
  by (simp add: factory_eval)

section \<open>Execution engine: reset\<close>

lemma InMemoryExecutionDatabase_reset_init:
  "InMemoryExecutionDatabase_reset db = InMemoryExecutionDatabase_init"
  by (simp add: InMemoryExecutionDatabase_reset_def ExecutionDatabase_reset_def
      InMemoryExecutionDatabase_init_def)

text \<open>
  C10. \<open>ExecutionEngine.reset\<close> replaces the database by an empty one and changes nothing
  else of the engine: the command count, the event count and the registered strategies are
  as before.
\<close>

theorem reset_keeps_counts:
  "ExecutionEngine_reset eng = eng\<lparr>database := InMemoryExecutionDatabase_init\<rparr> \<and>
   command_count (ExecutionEngine_reset eng) = command_count eng \<and>
   event_count (ExecutionEngine_reset eng) = event_count eng \<and>
   registered_strategies (ExecutionEngine_reset eng) = registered_strategies eng"
  by (simp add: ExecutionEngine_reset_def InMemoryExecutionDatabase_reset_init)

theorem reset_keeps_counts_witness:
  "command_count (ExecutionEngine_reset (engine_A\<lparr>command_count := 1, event_count := 4\<rparr>)) = 1 \<and>
   event_count (ExecutionEngine_reset (engine_A\<lparr>command_count := 1, event_count := 4\<rparr>)) = 4 \<and>
   registered_strategies (ExecutionEngine_reset (engine_A\<lparr>command_count := 1, event_count := 4\<rparr>))
     = {''S-1''} \<and>
   index_orders (database (engine_A\<lparr>command_count := 1, event_count := 4\<rparr>)) = {''O-2''} \<and>
   index_orders (database (ExecutionEngine_reset (engine_A\<lparr>command_count := 1, event_count := 4\<rparr>)))
     = {}"
proof -
  have regs: "registered_strategies engine_A = {''S-1''}"
    by (simp add: engine_A_def register_strategy_def ExecutionEngine_init_def add_strategy_def
        InMemoryExecutionDatabase_init_def Let_def)
  have idx: "index_orders (database engine_A) = {''O-2''}"
    by (simp add: engine_A_def register_strategy_def ExecutionEngine_init_def add_strategy_def
        InMemoryExecutionDatabase_init_def add_order_def market_buy_100_def Order_init_def
        PRICED_ORDER_TYPES_def Let_def)
  show ?thesis
    using reset_keeps_counts [of "engine_A\<lparr>command_count := 1, event_count := 4\<rparr>"] regs idx
    by (simp add: InMemoryExecutionDatabase_init_def)
qed

section \<open>Test clock\<close>

lemmas clock_eval =
  scenario_E_def scenario_E_timer_first_def advance_scenario_def set_time_alert_def
  set_timer_def TestTimer_init_def add_timer_def update_stack_def update_timing_def
  stack_next_times_def advance_time_def advance_def advance_loop.simps iterate_event_def
  remove_timer_def TestClock_init_def UNIX_EPOCH_def time_now_def seconds_def timestamps_def
  Let_def

text \<open>
  C3 (the code at the failing input). A clock at the epoch without timers, advanced to 5 s,
  returns no events and still reads the epoch; the clock of scenario E (next event at 3 s),
  advanced to 2 s, does the same.
\<close>

theorem advance_time_early_return_keeps_time:
  "map_option (map_sum id (\<lambda>(evs, c). (evs, clock_time c)))
     (advance_time (UNIX_EPOCH + seconds 5) (TestClock_init UNIX_EPOCH))
     = Some (Inr ([], UNIX_EPOCH)) \<and>
   map_option (map_sum id (\<lambda>(evs, c). (evs, clock_time c, next_event_time c)))
     (advance_scenario scenario_E (UNIX_EPOCH + seconds 2))
     = Some (Inr ([], UNIX_EPOCH, Some (UNIX_EPOCH + seconds 3)))"
  by (simp add: clock_eval)

text \<open>
  C8 (counterexample). In scenario E \<open>advance_time\<close> to 10 s does not return the events in
  ascending order of timestamp.
\<close>

theorem scenario_E_not_ascending:
  "map_option (map_sum id (\<lambda>(evs, c). timestamps evs))
     (advance_scenario scenario_E (UNIX_EPOCH + seconds 10))
     \<noteq> Some (Inr [seconds 3, seconds 6, seconds 9, seconds 10])"
  by (simp add: clock_eval)

text \<open>
  C8 (amended). In scenario E \<open>advance_time\<close> to 10 s returns the events timer by timer, in
  the order in which the timers were set: the alert's event at 10 s, then the repeating
  timer's events at 3 s, 6 s and 9 s. These are exactly the events with timestamps 3 s, 6 s,
  9 s and 10 s; the clock then reads 10 s and both timers are removed. With the repeating
  timer set before the alert, the events come at 3 s, 6 s, 9 s, 10 s.
\<close>

theorem scenario_E_advance:
  "map_option (map_sum id (\<lambda>(evs, c).
       (timestamps evs, sort (timestamps evs), clock_time c, timer_count c, timers c,
        next_event_time c)))
     (advance_scenario scenario_E (UNIX_EPOCH + seconds 10))
     = Some (Inr ([seconds 10, seconds 3, seconds 6, seconds 9],
                  [seconds 3, seconds 6, seconds 9, seconds 10],
                  UNIX_EPOCH + seconds 10, 0, [], None)) \<and>
   map_option (map_sum id (\<lambda>(evs, c). (timestamps evs, clock_time c, timer_count c, timers c)))
     (advance_scenario scenario_E_timer_first (UNIX_EPOCH + seconds 10))
     = Some (Inr ([seconds 3, seconds 6, seconds 9, seconds 10], UNIX_EPOCH + seconds 10, 0, []))"
  by (simp add: clock_eval)

section \<open>Execution database: the partition of the orders\<close>

lemma partition_ok_init: "partition_ok InMemoryExecutionDatabase_init"
  by (simp add: partition_ok_def InMemoryExecutionDatabase_init_def)

lemma add_order_indexes:
  "index_orders_working (snd (add_order ord sid pid db)) = index_orders_working db"
  "index_orders_completed (snd (add_order ord sid pid db)) = index_orders_completed db"
  "index_orders (snd (add_order ord sid pid db)) = index_orders db \<or>
   index_orders (snd (add_order ord sid pid db)) = insert (order_id ord) (index_orders db)"
  by (simp_all add: add_order_def Let_def split: option.splits)

lemma partition_ok_add_order:
  assumes "partition_ok db"
  shows "partition_ok (snd (add_order ord sid pid db))"
  using assms add_order_indexes(3) [of ord sid pid db]
  unfolding partition_ok_def add_order_indexes(1,2)
  by auto

lemma partition_ok_update_order:
  assumes "partition_ok db" and "order_id ord \<in> index_orders db"
  shows "partition_ok (update_order ord db)"
  using assms by (auto simp: partition_ok_def update_order_def)

lemma partition_ok_run_calls:
  "partition_ok db \<Longrightarrow> admissible cs db \<Longrightarrow> partition_ok (run_calls cs db)"
proof (induction cs arbitrary: db)
  case Nil
  then show ?case by simp
next
  case (Cons c cs)
  show ?case
  proof (cases c)
    case (AddOrder ord sid pid)
    with Cons.prems have "partition_ok (run_call c db)" and "admissible cs (run_call c db)"
      by (simp_all add: partition_ok_add_order)
    then show ?thesis using Cons.IH by simp
  next
    case (UpdateOrder ord)
    with Cons.prems have "partition_ok (run_call c db)" and "admissible cs (run_call c db)"
      by (simp_all add: partition_ok_update_order)
    then show ?thesis using Cons.IH by simp
  qed
qed

lemma partition_card:
  assumes "finite O'" and "W \<inter> C = {}" and "W \<subseteq> O'" and "C \<subseteq> O'"
  shows "card W + card C \<le> card O'"
proof -
  from assms have fin: "finite W" "finite C" by (auto intro: finite_subset)
  with assms(2) have "card W + card C = card (W \<union> C)" by (simp add: card_Un_disjoint)
  also from assms have "\<dots> \<le> card O'" by (intro card_mono) auto
  finally show ?thesis .
qed

text \<open>
  C7. After any run of \<open>add_order\<close> and \<open>update_order\<close> calls on a new database, in which
  \<open>update_order\<close> is called only on orders whose identifier is in the order index, the
  working and the completed index are disjoint, each is a subset of the order index, and
  their sizes add up to at most the number of orders.
\<close>

theorem working_completed_partition:
  assumes "admissible cs InMemoryExecutionDatabase_init"
  shows "index_orders_working (run_calls cs InMemoryExecutionDatabase_init) \<inter>
           index_orders_completed (run_calls cs InMemoryExecutionDatabase_init) = {} \<and>
         index_orders_working (run_calls cs InMemoryExecutionDatabase_init)
           \<subseteq> index_orders (run_calls cs InMemoryExecutionDatabase_init) \<and>
         index_orders_completed (run_calls cs InMemoryExecutionDatabase_init)
           \<subseteq> index_orders (run_calls cs InMemoryExecutionDatabase_init) \<and>
         count_orders_working (run_calls cs InMemoryExecutionDatabase_init) +
           count_orders_completed (run_calls cs InMemoryExecutionDatabase_init)
           \<le> count_orders_total (run_calls cs InMemoryExecutionDatabase_init)"
proof -
  from assms have ok: "partition_ok (run_calls cs InMemoryExecutionDatabase_init)"
    by (intro partition_ok_run_calls partition_ok_init)
  then have "card (index_orders_working (run_calls cs InMemoryExecutionDatabase_init)) +
      card (index_orders_completed (run_calls cs InMemoryExecutionDatabase_init))
      \<le> card (index_orders (run_calls cs InMemoryExecutionDatabase_init))"
    unfolding partition_ok_def by (intro partition_card) auto
  with ok show ?thesis
    by (simp add: partition_ok_def count_orders_working_def count_orders_completed_def
        count_orders_total_def)
qed

lemmas db_eval =
  example_calls_def add_order_def update_order_def InMemoryExecutionDatabase_init_def
  market_buy_100_def buy_fill_100_def order_event_def order_eval

theorem working_completed_partition_witness:
  "admissible example_calls InMemoryExecutionDatabase_init \<and>
   index_orders (run_calls example_calls InMemoryExecutionDatabase_init) = {''O-2'', ''O-1''} \<and>
   index_orders_working (run_calls example_calls InMemoryExecutionDatabase_init) = {} \<and>
   index_orders_completed (run_calls example_calls InMemoryExecutionDatabase_init)
     = {''O-1'', ''O-2''} \<and>
   count_orders_working (run_calls example_calls InMemoryExecutionDatabase_init) +
     count_orders_completed (run_calls example_calls InMemoryExecutionDatabase_init)
     \<le> count_orders_total (run_calls example_calls InMemoryExecutionDatabase_init)"
proof -
  have adm: "admissible example_calls InMemoryExecutionDatabase_init"
    by (simp add: db_eval)
  have idx: "index_orders (run_calls example_calls InMemoryExecutionDatabase_init)
      = {''O-2'', ''O-1''}"
    by (simp add: db_eval)
  have wrk: "index_orders_working (run_calls example_calls InMemoryExecutionDatabase_init) = {}"
    by (simp add: db_eval)
  have cmp: "index_orders_completed (run_calls example_calls InMemoryExecutionDatabase_init)
      = {''O-1'', ''O-2''}"
    by (auto simp add: db_eval)
  from working_completed_partition [OF adm] adm idx wrk cmp show ?thesis by simp
qed

section \<open>Execution engine: handling events\<close>

lemma send_to_strategy_event_count [simp]:
  "event_count (send_to_strategy event sid eng) = event_count eng"
  by (simp add: send_to_strategy_def)

lemma handle_position_event_event_count [simp]:
  "event_count (handle_position_event pe eng) = event_count eng"
  by (simp add: handle_position_event_def Let_def)

lemma handle_account_event_event_count [simp]:
  "event_count (handle_account_event ae eng) = event_count eng"
  by (simp add: handle_account_event_def Let_def)

lemma absorb_event_count [simp]: "event_count (absorb r eng) = event_count eng"
  by (simp add: absorb_def split: option.splits)

lemma position_event_result [simp]:
  "event_count (fst (position_event kind pos sid event eng)) = event_count eng"
  "snd (position_event kind pos sid event eng) =
     Some \<lparr>pe_position = pos, pe_strategy_id = sid, pe_order_fill = event,
           pe_id = engine_guid_count eng, pe_timestamp = ev_timestamp event, pe_kind = kind\<rparr>"
  by (simp_all add: position_event_def Let_def)

lemma handle_order_fill_result:
  "event_count (fst (handle_order_fill event sid eng)) = event_count eng"
  "(snd (handle_order_fill event sid eng) = None) =
     (index_order_position (database eng) (ev_order_id event) = None)"
  by (simp_all add: handle_order_fill_def get_position_id_def get_position_for_order_def
      position_opened_def position_modified_def position_closed_def
      Let_def split: option.splits prod.splits)

lemma update_order_indexes [simp]:
  "index_order_strategy (update_order ord db) = index_order_strategy db"
  "index_order_position (update_order ord db) = index_order_position db"
  by (simp_all add: update_order_def)

lemma handle_order_event_result:
  "event_count (fst (handle_order_event oe eng)) = event_count eng"
  "(snd (handle_order_event oe eng) = None) = (\<not> derives_position_event oe eng)"
  by (simp_all add: handle_order_event_def derives_position_event_def get_order_def
      get_strategy_for_order_def handle_order_fill_result absorb_def Let_def
      split: option.splits prod.splits)

lemma handle_event_position [simp]:
  "handle_event (PositionE pe) eng =
     handle_position_event pe (eng\<lparr>event_count := event_count eng + 1\<rparr>)"
  by (simp add: handle_event.simps)

lemma handle_event_order:
  "handle_event (OrderE oe) eng =
     (case handle_order_event oe (eng\<lparr>event_count := event_count eng + 1\<rparr>) of
        (eng2, None) \<Rightarrow> eng2
      | (eng2, Some pe) \<Rightarrow> handle_event (PositionE pe) eng2)"
  by (subst handle_event.simps) (simp add: Let_def)

lemma derives_position_event_count [simp]:
  "derives_position_event oe (eng\<lparr>event_count := n\<rparr>) = derives_position_event oe eng"
  by (simp add: derives_position_event_def split: option.splits)

lemma handle_event_order_count:
  "event_count (handle_event (OrderE oe) eng) =
     event_count eng + (if derives_position_event oe eng then 2 else 1)"
proof -
  let ?eng1 = "eng\<lparr>event_count := event_count eng + 1\<rparr>"
  obtain eng2 r where res: "handle_order_event oe ?eng1 = (eng2, r)"
    by (cases "handle_order_event oe ?eng1")
  from handle_order_event_result [of oe ?eng1] res
  have cnt: "event_count eng2 = event_count eng + 1"
    and der: "(r = None) = (\<not> derives_position_event oe eng)"
    by simp_all
  show ?thesis
  proof (cases r)
    case None
    with res cnt der show ?thesis by (simp add: handle_event_order)
  next
    case (Some pe)
    with res cnt der show ?thesis by (simp add: handle_event_order)
  qed
qed

lemma handle_event_unknown_order:
  assumes "cached_orders (database eng) (ev_order_id oe) = None"
  shows "handle_event (OrderE oe) eng =
     eng\<lparr>event_count := event_count eng + 1,
         log := log eng @ [(ERROR, ''Cannot find order in the cache.''),
                           (ERROR, ''Cannot process event (order not found).'')]\<rparr>"
  using assms by (simp add: handle_event_order handle_order_event_def get_order_def)

lemma handle_event_apply_raises:
  assumes "cached_orders (database eng) (ev_order_id oe) = Some ord"
    and "Order_apply oe ord = (Some err, ord')"
  shows "handle_event (OrderE oe) eng =
     eng\<lparr>event_count := event_count eng + 1,
         database := (database eng)\<lparr>cached_orders :=
           (cached_orders (database eng))(ev_order_id oe \<mapsto> ord')\<rparr>,
         unraisable := unraisable eng @ [err]\<rparr>"
  using assms by (simp add: handle_event_order handle_order_event_def get_order_def absorb_def)

lemmas engine_eval =
  engine_A_def register_strategy_def ExecutionEngine_init_def add_strategy_def
  InMemoryExecutionDatabase_init_def add_order_def market_buy_100_def buy_fill_100_def
  order_event_def account0_def portfolio0_def Order_init_def PRICED_ORDER_TYPES_def
  Order_apply_def set_slippage_def set_filled_state_def set_is_completed_true_def
  set_is_working_true_def price2_def is_fill_def Let_def

text \<open>
  C6 (counterexample). Scenario A: the engine receives the three events \<open>OrderSubmitted\<close>,
  \<open>OrderAccepted\<close> and the fill of 100, and its event count goes from 0 to 4.
\<close>

theorem scenario_A_event_count:
  "event_count engine_A = 0 \<and>
   event_count (handle_events
      [OrderE (order_event ''O-2'' (Some ''ACC-1'') 1 OrderSubmitted),
       OrderE (order_event ''O-2'' (Some ''ACC-1'') 2 OrderAccepted),
       OrderE (order_event ''O-2'' (Some ''ACC-1'') 3 (OrderFillEvent buy_fill_100))]
      engine_A) = 4"
proof -
  have mem: "cached_orders (database engine_A) ''O-2'' = Some (projr market_buy_100)"
    "index_order_strategy (database engine_A) ''O-2'' = Some ''S-1''"
    "index_order_position (database engine_A) ''O-2'' = Some ''P-1''"
    "event_count engine_A = 0"
    by (simp_all add: engine_eval)
  have d1: "\<not> derives_position_event (order_event ''O-2'' (Some ''ACC-1'') 1 OrderSubmitted) eng"
    for eng
    by (simp add: derives_position_event_def order_event_def is_fill_def split: option.splits)
  have d2: "\<not> derives_position_event (order_event ''O-2'' (Some ''ACC-1'') 2 OrderAccepted) eng"
    for eng
    by (simp add: derives_position_event_def order_event_def is_fill_def split: option.splits)
  let ?e1 = "OrderE (order_event ''O-2'' (Some ''ACC-1'') 1 OrderSubmitted)"
  let ?e2 = "OrderE (order_event ''O-2'' (Some ''ACC-1'') 2 OrderAccepted)"
  let ?eng2 = "handle_event ?e2 (handle_event ?e1 engine_A)"
  have db2: "cached_orders (database ?eng2) ''O-2'' \<noteq> None \<and>
      fst (Order_apply (order_event ''O-2'' (Some ''ACC-1'') 3 (OrderFillEvent buy_fill_100))
             (the (cached_orders (database ?eng2) ''O-2''))) = None \<and>
      index_order_strategy (database ?eng2) ''O-2'' = Some ''S-1'' \<and>
      index_order_position (database ?eng2) ''O-2'' = Some ''P-1''"
    by (simp add: handle_event_order handle_order_event_def get_order_def
        get_strategy_for_order_def send_to_strategy_def update_order_def engine_eval)
  then have d3: "derives_position_event
      (order_event ''O-2'' (Some ''ACC-1'') 3 (OrderFillEvent buy_fill_100)) ?eng2"
    by (auto simp: derives_position_event_def order_event_def is_fill_def split: option.splits)
  show ?thesis
    by (simp add: handle_event_order_count d1 d2 d3 mem(4))
qed

text \<open>
  C6 (amended). Every invocation of \<open>handle_event\<close> increments the event count by one,
  the nested invocation for the position event of a processed fill included: one received
  event raises the count by one, except a fill that is processed through to a position
  event, which raises it by two. \<open>handle_event\<close> always returns. An event for an order that
  is not in the database changes nothing but the event count and the log, which gains two
  error lines. An event on which \<open>Order.apply\<close> raises changes nothing but the event count,
  the order object as the raise left it and the list of absorbed exceptions.
\<close>

theorem handle_event_counts:
  "event_count (handle_event event eng) =
     event_count eng +
       (case event of
          OrderE oe' \<Rightarrow> if derives_position_event oe' eng then 2 else 1
        | _ \<Rightarrow> 1) \<and>
   (cached_orders (database eng) (ev_order_id oe) = None \<longrightarrow>
      handle_event (OrderE oe) eng =
        eng\<lparr>event_count := event_count eng + 1,
            log := log eng @ [(ERROR, ''Cannot find order in the cache.''),
                              (ERROR, ''Cannot process event (order not found).'')]\<rparr>) \<and>
   (cached_orders (database eng) (ev_order_id oe) = Some ord \<and>
    Order_apply oe ord = (Some err, ord') \<longrightarrow>
      handle_event (OrderE oe) eng =
        eng\<lparr>event_count := event_count eng + 1,
            database := (database eng)\<lparr>cached_orders :=
              (cached_orders (database eng))(ev_order_id oe \<mapsto> ord')\<rparr>,
            unraisable := unraisable eng @ [err]\<rparr>)"
proof -
  have count: "event_count (handle_event event eng) =
     event_count eng +
       (case event of
          OrderE oe' \<Rightarrow> if derives_position_event oe' eng then 2 else 1
        | _ \<Rightarrow> 1)"
  proof (cases event)
    case (OrderE oe')
    then show ?thesis by (simp add: handle_event_order_count)
  next
    case (PositionE pe)
    then show ?thesis by simp
  next
    case (AccountE ae)
    then show ?thesis by (simp add: handle_event.simps)
  next
    case OtherEvent
    then show ?thesis by (simp add: handle_event.simps)
  qed
  from count handle_event_unknown_order [of eng oe] handle_event_apply_raises [of eng oe ord err ord']
  show ?thesis by blast
qed

theorem handle_event_counts_witness:
  "handle_event (OrderE (order_event ''O-9'' None 1 (OrderFillEvent buy_fill_100))) engine_A =
     engine_A\<lparr>event_count := 1,
              log := [(ERROR, ''Cannot find order in the cache.''),
                      (ERROR, ''Cannot process event (order not found).'')]\<rparr> \<and>
   event_count (handle_event (OrderE (order_event ''O-2'' (Some ''ACC-1'') 1 OrderSubmitted))
      engine_A) = 1 \<and>
   handle_event (OrderE (order_event ''O-2'' (Some ''ACC-2'') 2 OrderAccepted))
     (handle_event (OrderE (order_event ''O-2'' (Some ''ACC-1'') 1 OrderSubmitted)) engine_A) =
     (handle_event (OrderE (order_event ''O-2'' (Some ''ACC-1'') 1 OrderSubmitted)) engine_A)
       \<lparr>event_count := 2, unraisable := [ConditionFailed ''account_id'']\<rparr>"
proof -
  let ?unknown = "order_event ''O-9'' None 1 (OrderFillEvent buy_fill_100)"
  let ?submitted = "order_event ''O-2'' (Some ''ACC-1'') 1 OrderSubmitted"
  let ?foreign = "order_event ''O-2'' (Some ''ACC-2'') 2 OrderAccepted"
  let ?eng1 = "handle_event (OrderE ?submitted) engine_A"
  have a0: "event_count engine_A = 0" "log engine_A = []"
    by (simp_all add: engine_eval)
  have a1: "cached_orders (database engine_A) (ev_order_id ?unknown) = None"
    by (simp add: engine_eval)
  have a2: "\<not> derives_position_event ?submitted engine_A"
    by (simp add: derives_position_event_def order_event_def is_fill_def split: option.splits)
  have eng1: "?eng1 = (send_to_strategy (OrderE ?submitted) ''S-1''
       (engine_A\<lparr>event_count := 1, database := update_order
          (snd (Order_apply ?submitted (projr market_buy_100)))
          ((database engine_A)\<lparr>cached_orders := (cached_orders (database engine_A))
             (''O-2'' \<mapsto> snd (Order_apply ?submitted (projr market_buy_100)))\<rparr>)\<rparr>))"
    by (simp add: handle_event_order handle_order_event_def get_order_def
        get_strategy_for_order_def engine_eval update_order_def)
  have a3: "cached_orders (database ?eng1) (ev_order_id ?foreign) =
      Some (snd (Order_apply ?submitted (projr market_buy_100)))"
    unfolding eng1 by (simp add: send_to_strategy_def update_order_def engine_eval)
  have a4: "Order_apply ?foreign (snd (Order_apply ?submitted (projr market_buy_100))) =
      (Some (ConditionFailed ''account_id''), snd (Order_apply ?submitted (projr market_buy_100)))"
    by (simp add: engine_eval)
  have a5: "event_count ?eng1 = 1" "unraisable ?eng1 = []"
    unfolding eng1 by (simp_all add: send_to_strategy_def engine_eval)
  have triv: "(database ?eng1)\<lparr>cached_orders := (cached_orders (database ?eng1))
      (ev_order_id ?foreign \<mapsto> snd (Order_apply ?submitted (projr market_buy_100)))\<rparr>
      = database ?eng1"
    using a3 by (simp add: map_upd_triv)
  from handle_event_counts [of "OrderE ?unknown" engine_A ?unknown] a0 a1
  have p1: "handle_event (OrderE ?unknown) engine_A =
     engine_A\<lparr>event_count := 1,
              log := [(ERROR, ''Cannot find order in the cache.''),
                      (ERROR, ''Cannot process event (order not found).'')]\<rparr>"
    by simp
  from handle_event_counts [of "OrderE ?submitted" engine_A ?submitted] a0 a2
  have p2: "event_count ?eng1 = 1"
    by simp
  from handle_event_counts [of "OrderE ?foreign" ?eng1 ?foreign
      "snd (Order_apply ?submitted (projr market_buy_100))" "ConditionFailed ''account_id''"
      "snd (Order_apply ?submitted (projr market_buy_100))"] a3 a4
  have "handle_event (OrderE ?foreign) ?eng1 =
     ?eng1\<lparr>event_count := event_count ?eng1 + 1,
           database := (database ?eng1)\<lparr>cached_orders := (cached_orders (database ?eng1))
             (ev_order_id ?foreign \<mapsto> snd (Order_apply ?submitted (projr market_buy_100)))\<rparr>,
           unraisable := unraisable ?eng1 @ [ConditionFailed ''account_id'']\<rparr>"
    by blast
  then have p3: "handle_event (OrderE ?foreign) ?eng1 =
     ?eng1\<lparr>event_count := 2, unraisable := [ConditionFailed ''account_id'']\<rparr>"
    unfolding triv a5 by simp
  from p1 p2 p3 show ?thesis by simp
qed

section \<open>Further properties\<close>

lemma create_order_result:
  assumes "create_order f smb oside otype qty pr lbl purp tif expire = (Inr ord, f')"
  shows "side ord = oside" and "oside \<noteq> OrderSide_UNDEFINED" and "order_type ord = otype"
    and "quantity ord = qty" and "time_in_force ord = tif" and "label ord = lbl"
    and "symbol ord = smb" and "purpose ord = purp"
  using assms
  by (auto simp: create_order_def id_generate_def guid_generate_def Order_init_def Let_def
      split: if_splits)

lemma create_atomic_order_result:
  assumes "create_atomic_order f e psl ptp lbl = (Inr a, f')"
  shows "entry a = e \<and>
         order_type (stop_loss a) = STOP_MARKET \<and>
         side (stop_loss a) = (if side e = SELL then BUY else SELL) \<and>
         quantity (stop_loss a) = quantity e \<and>
         time_in_force (stop_loss a) = GTC \<and>
         label (stop_loss a) = map_option (\<lambda>l. l @ ''_SL'') lbl \<and>
         atomic_id a = ''A'' @ order_id e \<and>
         (case take_profit a of
            None \<Rightarrow> ptp = None
          | Some tp \<Rightarrow>
              order_type tp = LIMIT \<and> side tp = (if side e = SELL then BUY else SELL) \<and>
              quantity tp = quantity e \<and> time_in_force tp = GTC \<and>
              label tp = map_option (\<lambda>l. l @ ''_TP'') lbl)"
proof -
  let ?child = "if side e = SELL then BUY else SELL"
  let ?lsl = "case lbl of None \<Rightarrow> None | Some l \<Rightarrow> Some (l @ ''_SL'')"
  let ?ltp = "case lbl of None \<Rightarrow> None | Some l \<Rightarrow> Some (l @ ''_TP'')"
  have lsl: "?lsl = map_option (\<lambda>l. l @ ''_SL'') lbl" by (cases lbl) simp_all
  have ltp: "?ltp = map_option (\<lambda>l. l @ ''_TP'') lbl" by (cases lbl) simp_all
  obtain r1 f1 where sl: "stop_market f (symbol e) ?child (quantity e) psl ?lsl STOP_LOSS GTC None
      = (r1, f1)"
    by (cases "stop_market f (symbol e) ?child (quantity e) psl ?lsl STOP_LOSS GTC None")
  with assms obtain s where r1: "r1 = Inr s"
    by (cases r1) (auto simp: create_atomic_order_def Let_def)
  note slp = create_order_result [OF sl [unfolded stop_market_def r1]]
  show ?thesis
  proof (cases ptp)
    case None
    with assms sl r1 have "a = AtomicOrder_init e s None"
      by (simp add: create_atomic_order_def Let_def)
    with slp None lsl show ?thesis by (simp add: AtomicOrder_init_def)
  next
    case (Some p)
    obtain r2 f2 where tp: "limit f1 (symbol e) ?child (quantity e) ptp ?ltp TAKE_PROFIT GTC None
        = (r2, f2)"
      by (cases "limit f1 (symbol e) ?child (quantity e) ptp ?ltp TAKE_PROFIT GTC None")
    with assms sl r1 Some obtain t where r2: "r2 = Inr t"
      by (cases r2) (auto simp: create_atomic_order_def Let_def)
    note tpp = create_order_result [OF tp [unfolded limit_def r2]]
    from assms sl r1 Some tp r2 have "a = AtomicOrder_init e s (Some t)"
      by (simp add: create_atomic_order_def Let_def)
    with slp tpp lsl ltp show ?thesis by (simp add: AtomicOrder_init_def)
  qed
qed

text \<open>
  X1. Every atomic order that \<open>atomic_market\<close>, \<open>atomic_limit\<close> or \<open>atomic_stop_market\<close>
  returns has a STOP_MARKET stop-loss and, when present, a LIMIT take-profit, both on the
  side opposite to the entry, with the entry's quantity, time in force GTC and the labels
  \<open>L_SL\<close> and \<open>L_TP\<close> when the label \<open>L\<close> is given; its identifier is \<open>A\<close> followed by the
  entry's identifier; and a take-profit is present exactly when a take-profit price is given.
\<close>

theorem atomic_order_children:
  assumes "fst (atomic_market f smb oside qty psl ptp lbl) = Inr a \<or>
           fst (atomic_limit f smb oside qty pe psl ptp lbl tif expire) = Inr a \<or>
           fst (atomic_stop_market f smb oside qty pe psl ptp lbl tif expire) = Inr a"
  shows "side (entry a) \<in> {BUY, SELL} \<and>
         order_type (stop_loss a) = STOP_MARKET \<and>
         side (stop_loss a) = (if side (entry a) = SELL then BUY else SELL) \<and>
         quantity (stop_loss a) = quantity (entry a) \<and>
         time_in_force (stop_loss a) = GTC \<and>
         label (stop_loss a) = map_option (\<lambda>l. l @ ''_SL'') lbl \<and>
         atomic_id a = ''A'' @ order_id (entry a) \<and>
         (case take_profit a of
            None \<Rightarrow> ptp = None
          | Some tp \<Rightarrow>
              order_type tp = LIMIT \<and>
              side tp = (if side (entry a) = SELL then BUY else SELL) \<and>
              quantity tp = quantity (entry a) \<and> time_in_force tp = GTC \<and>
              label tp = map_option (\<lambda>l. l @ ''_TP'') lbl)"
proof -
  have "\<exists>f1 f2 e. create_atomic_order f1 e psl ptp lbl = (Inr a, f2) \<and> side e \<noteq> OrderSide_UNDEFINED"
    using assms
  proof (elim disjE)
    assume *: "fst (atomic_market f smb oside qty psl ptp lbl) = Inr a"
    let ?el = "case lbl of None \<Rightarrow> None | Some l \<Rightarrow> Some (l @ ''_E'')"
    obtain r f1 where m: "market f smb oside qty ?el ENTRY = (r, f1)"
      by (cases "market f smb oside qty ?el ENTRY")
    with * obtain e where r: "r = Inr e"
      by (cases r) (auto simp: atomic_market_def Let_def)
    from create_order_result(1,2) [OF m [unfolded market_def r]]
    have "side e \<noteq> OrderSide_UNDEFINED" by simp
    moreover from * m r have "create_atomic_order f1 e psl ptp lbl
        = (Inr a, snd (create_atomic_order f1 e psl ptp lbl))"
      by (simp add: atomic_market_def Let_def prod_eq_iff)
    ultimately show ?thesis by blast
  next
    assume *: "fst (atomic_limit f smb oside qty pe psl ptp lbl tif expire) = Inr a"
    obtain r f1 where m: "limit f smb oside qty pe lbl ENTRY tif expire = (r, f1)"
      by (cases "limit f smb oside qty pe lbl ENTRY tif expire")
    with * obtain e where r: "r = Inr e"
      by (cases r) (auto simp: atomic_limit_def Let_def)
    from create_order_result(1,2) [OF m [unfolded limit_def r]]
    have "side e \<noteq> OrderSide_UNDEFINED" by simp
    moreover from * m r have "create_atomic_order f1 e psl ptp lbl
        = (Inr a, snd (create_atomic_order f1 e psl ptp lbl))"
      by (simp add: atomic_limit_def Let_def prod_eq_iff)
    ultimately show ?thesis by blast
  next
    assume *: "fst (atomic_stop_market f smb oside qty pe psl ptp lbl tif expire) = Inr a"
    obtain r f1 where m: "stop_market f smb oside qty pe lbl ENTRY tif expire = (r, f1)"
      by (cases "stop_market f smb oside qty pe lbl ENTRY tif expire")
    with * obtain e where r: "r = Inr e"
      by (cases r) (auto simp: atomic_stop_market_def Let_def)
    from create_order_result(1,2) [OF m [unfolded stop_market_def r]]
    have "side e \<noteq> OrderSide_UNDEFINED" by simp
    moreover from * m r have "create_atomic_order f1 e psl ptp lbl
        = (Inr a, snd (create_atomic_order f1 e psl ptp lbl))"
      by (simp add: atomic_stop_market_def Let_def prod_eq_iff)
    ultimately show ?thesis by blast
  qed
  then obtain f1 f2 e where c: "create_atomic_order f1 e psl ptp lbl = (Inr a, f2)"
    and s: "side e \<noteq> OrderSide_UNDEFINED"
    by blast
  from s have "side e \<in> {BUY, SELL}" by (cases "side e") simp_all
  with create_atomic_order_result [OF c] show ?thesis
    by (auto split: option.splits)
qed

theorem atomic_order_children_witness:
  "map_sum id (\<lambda>a. (side (entry a), order_type (stop_loss a), side (stop_loss a),
        quantity (entry a), quantity (stop_loss a), time_in_force (stop_loss a),
        label (stop_loss a), atomic_id a = ''A'' @ order_id (entry a)))
     (fst (atomic_limit factory0 ''AAPL'' BUY 10 (Some (price2 10000)) (Some (price2 9900))
             (Some (price2 10100)) (Some ''L'') DAY None))
     = Inr (BUY, STOP_MARKET, SELL, 10, 10, GTC, Some ''L_SL'', True)"
proof -
  let ?r = "fst (atomic_limit factory0 ''AAPL'' BUY 10 (Some (price2 10000)) (Some (price2 9900))
             (Some (price2 10100)) (Some ''L'') DAY None)"
  have ok: "?r = Inr (projr ?r)"
    by (simp add: factory_eval)
  have e: "side (entry (projr ?r)) = BUY" "quantity (entry (projr ?r)) = 10"
    by (simp_all add: factory_eval)
  from atomic_order_children [of factory0 "''AAPL''" BUY 10 "Some (price2 9900)"
      "Some (price2 10100)" "Some ''L''" "projr ?r" "Some (price2 10000)" DAY None] ok e
  have "order_type (stop_loss (projr ?r)) = STOP_MARKET \<and>
        side (stop_loss (projr ?r)) = SELL \<and>
        quantity (stop_loss (projr ?r)) = 10 \<and>
        time_in_force (stop_loss (projr ?r)) = GTC \<and>
        label (stop_loss (projr ?r)) = Some ''L_SL'' \<and>
        atomic_id (projr ?r) = ''A'' @ order_id (entry (projr ?r))"
    by simp
  with e show ?thesis by (subst ok) simp
qed

lemma iterate_event_fields [simp]:
  "interval (snd (iterate_event now t)) = interval t"
  "next_time (snd (iterate_event now t)) = next_time t + interval t"
  by (simp_all add: iterate_event_def Let_def)

lemma advance_loop_returns:
  "0 < interval t \<Longrightarrow> \<exists>r. advance_loop to_time t acc = Some r"
proof (induction "nat (to_time - next_time t + 1)" arbitrary: t acc rule: less_induct)
  case less
  show ?case
  proof (cases "\<not> expired t \<and> to_time \<ge> next_time t")
    case True
    let ?t' = "snd (iterate_event (next_time t) t)"
    from True less.prems
    have "nat (to_time - next_time ?t' + 1) < nat (to_time - next_time t + 1)"
      by simp
    moreover from less.prems have "0 < interval ?t'" by simp
    ultimately have "\<exists>r. advance_loop to_time ?t'
        (acc @ [fst (iterate_event (next_time t) t)]) = Some r"
      by (rule less.hyps)
    with True show ?thesis by (subst advance_loop.simps) simp
  next
    case False
    then show ?thesis by (subst advance_loop.simps) auto
  qed
qed

text \<open>
  X2. \<open>TestTimer.advance\<close> returns for every timer that the constructor accepts: the
  constructor requires a positive interval, and with a positive interval the loop ends.
\<close>

theorem advance_returns:
  assumes "TestTimer_init lbl cb ival start stop = Inr t"
  shows "\<exists>evs t'. advance to_time t = Some (evs, t')"
proof -
  from assms have "0 < interval t"
    by (auto simp: TestTimer_init_def split: if_splits)
  then obtain r where "advance_loop to_time t [] = Some r"
    using advance_loop_returns by blast
  then show ?thesis by (cases r) (simp add: advance_def)
qed

theorem advance_returns_witness:
  "TestTimer_init ''timer'' ''on_timer'' (seconds 3) 0 (Some (seconds 9)) =
     Inr \<lparr>timer_label = ''timer'', callback = ''on_timer'', interval = seconds 3,
          start_time = 0, next_time = seconds 3, stop_time = Some (seconds 9),
          expired = False\<rparr> \<and>
   (\<exists>evs t'. advance (seconds 10)
      \<lparr>timer_label = ''timer'', callback = ''on_timer'', interval = seconds 3,
       start_time = 0, next_time = seconds 3, stop_time = Some (seconds 9),
       expired = False\<rparr> = Some (evs, t'))"
proof -
  have init: "TestTimer_init ''timer'' ''on_timer'' (seconds 3) 0 (Some (seconds 9)) =
     Inr \<lparr>timer_label = ''timer'', callback = ''on_timer'', interval = seconds 3,
          start_time = 0, next_time = seconds 3, stop_time = Some (seconds 9),
          expired = False\<rparr>"
    by (simp add: TestTimer_init_def seconds_def)
  from advance_returns [OF init, of "seconds 10"] init show ?thesis by blast
qed

text \<open>
  X3. When timers exist and the time given is not before the next event time,
  \<open>advance_time\<close>, if it returns normally, leaves the clock reading the time given; on the
  early return it returns no events and the clock as it was.
\<close>

theorem advance_time_sets_time:
  assumes "advance_time to_time c = Some (Inr (evs, c'))"
  shows "(timer_count c \<noteq> 0 \<and> next_event_time c = Some n \<and> n \<le> to_time
            \<longrightarrow> clock_time c' = to_time) \<and>
         (timer_count c = 0 \<or> (next_event_time c = Some n \<and> to_time < n)
            \<longrightarrow> evs = [] \<and> c' = c)"
  using assms
  by (auto simp: advance_time_def split: if_splits option.splits)

theorem advance_time_sets_time_witness:
  "map_option (map_sum id (\<lambda>(evs, c). clock_time c))
     (advance_scenario scenario_E (UNIX_EPOCH + seconds 10)) = Some (Inr (seconds 10))"
proof -
  let ?c = "projr scenario_E"
  let ?r = "advance_time (UNIX_EPOCH + seconds 10) ?c"
  have sc: "scenario_E = Inr ?c"
    by (simp add: clock_eval)
  have pre: "timer_count ?c \<noteq> 0 \<and> next_event_time ?c = Some (seconds 3) \<and>
      seconds 3 \<le> UNIX_EPOCH + seconds 10"
    by (simp add: clock_eval)
  have run: "?r = Some (Inr (fst (projr (the ?r)), snd (projr (the ?r))))"
    by (simp add: clock_eval)
  from advance_time_sets_time [OF run, of "seconds 3"] pre
  have "clock_time (snd (projr (the ?r))) = UNIX_EPOCH + seconds 10"
    by blast
  then have "map_option (map_sum id (\<lambda>(evs, c). clock_time c)) ?r = Some (Inr (seconds 10))"
    by (subst run) (simp add: UNIX_EPOCH_def case_prod_beta)
  then show ?thesis
    by (subst sc) (simp add: advance_scenario_def)
qed


end
